theory Spec2Isabelle
  imports Complex_Main "HOL-Library.Word"
begin

unbundle bit_operations_syntax

section \<open>JavaScript values\<close>

text \<open>
  The build tool is JavaScript. The values that hooks return and that promises resolve to
  are modelled by \<open>jsval\<close>; \<open>truthy\<close> is the language's ToBoolean, which the source applies
  with \<open>!!v\<close>, \<open>if (v)\<close>, \<open>a || b\<close> and \<open>a && b\<close>. A number is NaN, an infinity or a finite
  value (both zeros are the finite value 0).
\<close>

datatype jsnumber = NaN | Infinity bool | Finite real

datatype jsval =
    JUndefined
  | JNull
  | JBool bool
  | JNum jsnumber
  | JStr string
  | JBigInt int
  | JObject

fun truthy :: "jsval \<Rightarrow> bool" where
  "truthy JUndefined = False"
| "truthy JNull = False"
| "truthy (JBool b) = b"
| "truthy (JNum NaN) = False"
| "truthy (JNum (Infinity _)) = True"
| "truthy (JNum (Finite r)) = (r \<noteq> 0)"
| "truthy (JStr s) = (s \<noteq> [])"
| "truthy (JBigInt i) = (i \<noteq> 0)"
| "truthy JObject = True"

text \<open>What a \<open>throw\<close> carries: an \<open>Error\<close> with its message, a \<open>TypeError\<close> raised by the
  language itself, or any other value (a cancellation reason, a value thrown by a hook).\<close>

datatype error = Error string | TypeError string | RangeError string | Thrown jsval

section \<open>The cancellable build handle (function \<open>build\<close>)\<close>

text \<open>
  A cancel callback is a function value; its body is outside the handle, so the model
  keeps its identity and whether the call returns or throws. The source itself registers
  two kinds, \<^verbatim>\<open>() => { tslintProcess.cancel() }\<close> and \<^verbatim>\<open>() => { fswatcher.promise.cancel() }\<close>;
  a hook can register any other through \<open>ctx.addCancelCallback\<close>. A value that is not a
  function at all (\<open>undefined\<close>, \<open>null\<close>) is \<open>None\<close>.
\<close>

datatype behaviour = Returns | Throws error

datatype fn_id = UserFn nat | TslintCancel nat | FswatcherCancel string

datatype callback = Callback fn_id behaviour

type_synonym cbval = "callback option"

datatype level = Debug | Info | Warn | Err

text \<open>The options of a type-check process that the model keeps (of the object given to
  \<open>tslint(options)\<close>): \<open>mode\<close>, \<open>watch\<close>, \<open>cwd\<close>, \<open>clearScreen\<close> and \<open>tsconfigFile\<close>.\<close>

record tslint_options =
  opt_mode :: jsval
  opt_watch :: jsval
  opt_cwd :: "string option"
  opt_clearScreen :: jsval
  opt_tsconfigFile :: "string option"

datatype event =
    Fired fn_id
  | Log level string
  | ScreenClear
  | OnStartCalled "string list"
  | EsbuildBuild
  | PatchSourceMap
  | Chmod
  | UserOnEndCalled
  | SetErrorExitCode
  | TslintStarted nat tslint_options
  | SetFiles string "string list"
  | FileModificationLogAppend string

datatype settlement = Fulfilled jsval | Rejected error

text \<open>\<open>ctx.rebuild\<close> holds one of two closures: the one \<open>build\<close> installs when the
  context is created, and the one \<open>build1\<close> assigns once its set-up has run.\<close>

datatype rebuild_impl = RebuildInitial | RebuildBuild1

text \<open>
  The mutable state that \<open>build\<close> and \<open>build1\<close> close over: \<open>config[CANCELED]\<close>, the array
  \<open>cancelCallbacks\<close>, \<open>ctx.rebuild\<close>, whether \<open>resolver\<close> has been pointed at the promise's
  own \<open>resolve\<close>/\<open>reject\<close>, how the promise \<open>p\<close> has settled (\<open>None\<close>: pending), the flag
  \<open>isInsideCallToUserOnEnd\<close>; the module-level \<open>_setErrorExitCode\<close>, \<open>tslintProcessCache\<close>
  (cache key to process; processes are numbered in the order \<open>tslint(options)\<close> creates
  them) and \<open>fswatcherMap\<close> (project id to watcher, a watcher being the file list last
  given to its \<open>setFiles\<close>); and the sequence of effects on the outside world.
\<close>

record state =
  CANCELED :: bool
  cancelCallbacks :: "cbval list"
  ctx_rebuild :: rebuild_impl
  resolver_attached :: bool
  settled :: "settlement option"
  isInsideCallToUserOnEnd :: bool
  setErrorExitCode_done :: bool
  tslintProcessCache :: "string \<rightharpoonup> nat"
  tslint_started :: nat
  fswatcherMap :: "string \<rightharpoonup> string list"
  trace :: "event list"

definition emit :: "event \<Rightarrow> state \<Rightarrow> state" where
  "emit e s = s\<lparr>trace := trace s @ [e]\<rparr>"

text \<open>A promise settles once; \<open>resolver.resolve\<close> and \<open>resolver.reject\<close> are empty functions
  until the promise's executor has replaced them.\<close>

definition settle :: "settlement \<Rightarrow> state \<Rightarrow> state" where
  "settle r s = (if settled s = None then s\<lparr>settled := Some r\<rparr> else s)"

definition resolver_resolve :: "jsval \<Rightarrow> state \<Rightarrow> state" where
  "resolver_resolve v s = (if resolver_attached s then settle (Fulfilled v) s else s)"

definition resolver_reject :: "jsval \<Rightarrow> state \<Rightarrow> state" where
  "resolver_reject v s = (if resolver_attached s then settle (Rejected (Thrown v)) s else s)"

text \<open>The state right after \<open>build(config)\<close> has returned the promise, in a process that
  has started nothing else.\<close>

definition build_init :: state where
  "build_init = \<lparr>CANCELED = False, cancelCallbacks = [], ctx_rebuild = RebuildInitial,
     resolver_attached = False, settled = None, isInsideCallToUserOnEnd = False,
     setErrorExitCode_done = False, tslintProcessCache = Map.empty, tslint_started = 0,
     fswatcherMap = Map.empty, trace = []\<rparr>"

text \<open>Calling a value: a function runs (and may throw), anything else is a TypeError.\<close>

fun call_cb :: "cbval \<Rightarrow> state \<Rightarrow> error option \<times> state" where
  "call_cb None s = (Some (TypeError ''f is not a function''), s)"
| "call_cb (Some (Callback i Returns)) s = (None, emit (Fired i) s)"
| "call_cb (Some (Callback i (Throws e))) s = (Some e, emit (Fired i) s)"

text \<open>
  \<^verbatim>\<open>function addCancelCallback(f) {
    if (config[CANCELED]) { f() } else { cancelCallbacks.push(f) } }\<close>
\<close>

definition addCancelCallback :: "cbval \<Rightarrow> state \<Rightarrow> error option \<times> state" where
  "addCancelCallback f s =
     (if CANCELED s then call_cb f s
      else (None, s\<lparr>cancelCallbacks := cancelCallbacks s @ [f]\<rparr>))"

text \<open>The loop \<^verbatim>\<open>for (let f of cancelCallbacks) { f && f() }\<close>; a throw leaves the loop.\<close>

fun run_callbacks :: "cbval list \<Rightarrow> state \<Rightarrow> error option \<times> state" where
  "run_callbacks [] s = (None, s)"
| "run_callbacks (None # fs) s = run_callbacks fs s"
| "run_callbacks (Some f # fs) s =
     (case call_cb (Some f) s of
        (Some e, s') \<Rightarrow> (Some e, s')
      | (None, s') \<Rightarrow> run_callbacks fs s')"

text \<open>
  \<^verbatim>\<open>function cancel(reason) {
    if (!config[CANCELED]) {
      log.debug(`build cancelled`, {reason})
      config[CANCELED] = true
      for (let f of cancelCallbacks) { f && f() }
      cancelCallbacks.length = 0
      if (reason) { resolver.reject(reason) } else { resolver.resolve() }
    } }\<close>
\<close>

definition cancel :: "jsval \<Rightarrow> state \<Rightarrow> error option \<times> state" where
  "cancel reason s =
     (if \<not> CANCELED s then
        (let s1 = emit (Log Debug ''build cancelled'') s;
             s2 = s1\<lparr>CANCELED := True\<rparr>
         in case run_callbacks (cancelCallbacks s2) s2 of
              (Some e, s3) \<Rightarrow> (Some e, s3)
            | (None, s3) \<Rightarrow>
                (let s4 = s3\<lparr>cancelCallbacks := []\<rparr>
                 in (None, if truthy reason then resolver_reject reason s4
                           else resolver_resolve JUndefined s4)))
      else (None, s))"

text \<open>A caller's use of the handle: a sequence of registrations and cancellations, which
  stops at the first call that throws.\<close>

datatype hop = AddCancelCallback cbval | Cancel jsval

fun apply_hop :: "hop \<Rightarrow> state \<Rightarrow> error option \<times> state" where
  "apply_hop (AddCancelCallback f) s = addCancelCallback f s"
| "apply_hop (Cancel reason) s = cancel reason s"

fun run_hops :: "hop list \<Rightarrow> state \<Rightarrow> error option \<times> state" where
  "run_hops [] s = (None, s)"
| "run_hops (x # xs) s =
     (case apply_hop x s of
        (Some e, s') \<Rightarrow> (Some e, s')
      | (None, s') \<Rightarrow> run_hops xs s')"

text \<open>Observations used in the statements: the callbacks fired so far, in order; the
  function identities held in a callback array; the callbacks a sequence registers.\<close>

fun fired :: "event list \<Rightarrow> fn_id list" where
  "fired [] = []"
| "fired (Fired i # es) = i # fired es"
| "fired (_ # es) = fired es"

fun callback_ids :: "cbval list \<Rightarrow> fn_id list" where
  "callback_ids [] = []"
| "callback_ids (None # fs) = callback_ids fs"
| "callback_ids (Some (Callback i _) # fs) = i # callback_ids fs"

fun registered :: "hop list \<Rightarrow> cbval list" where
  "registered [] = []"
| "registered (AddCancelCallback f # xs) = f # registered xs"
| "registered (Cancel _ # xs) = registered xs"

fun returns_normally :: "cbval \<Rightarrow> bool" where
  "returns_normally None = False"
| "returns_normally (Some (Callback _ b)) = (b = Returns)"

fun no_throw :: "cbval \<Rightarrow> bool" where
  "no_throw None = True"
| "no_throw (Some (Callback _ b)) = (b = Returns)"

fun cancels :: "hop list \<Rightarrow> bool" where
  "cancels [] = False"
| "cancels (Cancel _ # xs) = True"
| "cancels (_ # xs) = cancels xs"

section \<open>Build configuration\<close>

text \<open>
  \<open>config.entry\<close> and \<open>config.entryPoints\<close> are unset, a string, or an array of strings.
  A lifecycle hook is a user function; the model keeps, for each argument, whether the call
  (awaited, when it returns a promise) throws or returns a value, and which operations on
  the build handle it performs meanwhile.
\<close>

datatype entryval = Unset | Str string | Arr "string list"

datatype hook_result = HookThrows error | HookReturns jsval "hop list"

text \<open>The \<open>{ warnings, errors }\<close> object that \<open>onEnd\<close> receives; a message is kept as its
  \<open>text\<close>.\<close>

record props =
  warnings :: "string list option"
  errors :: "string list"

text \<open>The fields of the configuration object that the modelled functions read or write.
  \<open>PROJECT_ID\<close> is the symbol-keyed property under which the project id is memoized.\<close>

record config =
  cwd :: "string option"
  outfile :: "string option"
  outdir :: "string option"
  entryPoints :: entryval
  entry :: entryval
  sourcemap :: jsval
  watch :: jsval
  clear :: jsval
  quiet :: jsval
  outfileMode :: jsval
  tsrules :: "string list option"
  onStart :: "(string list \<Rightarrow> hook_result) option"
  onEnd :: "(props \<Rightarrow> hook_result) option"
  PROJECT_ID :: "string option"

text \<open>Truthiness of an optional string property (\<open>undefined\<close> and \<open>""\<close> are falsy).\<close>

fun str_truthy :: "string option \<Rightarrow> bool" where
  "str_truthy None = False"
| "str_truthy (Some s) = (s \<noteq> [])"

text \<open>\<open>Array.prototype.join\<close> on an array of strings.\<close>

fun join :: "string \<Rightarrow> string list \<Rightarrow> string" where
  "join sep [] = []"
| "join sep [x] = x"
| "join sep (x # y # ys) = x @ sep @ join sep (y # ys)"

section \<open>Project identity (\<open>projectIDForConfig\<close>, \<open>base36EncodeBuf\<close>, \<open>sha1\<close>)\<close>

type_synonym byte = "8 word"

text \<open>
  \<open>Buffer.from(projectKey, "utf8")\<close>. A \<open>char\<close> is a code point below 256: below 128 it is
  one byte, from 128 on it is two.
\<close>

definition utf8_char :: "char \<Rightarrow> byte list" where
  "utf8_char c =
     (let n = (of_char c :: nat)
      in if n < 128 then [of_nat n] else [of_nat (192 + n div 64), of_nat (128 + n mod 64)])"

definition utf8 :: "string \<Rightarrow> byte list" where
  "utf8 s = concat (map utf8_char s)"

text \<open>
  \<open>sha1(input)\<close> is \<open>crypto.createHash('sha1').update(input).digest()\<close>: the SHA-1 function
  of FIPS 180-4 on the bytes of the buffer, giving the 20 bytes of the digest.
\<close>

definition rotl :: "nat \<Rightarrow> 32 word \<Rightarrow> 32 word" where
  "rotl n w = push_bit n w OR drop_bit (32 - n) w"

fun be32 :: "byte list \<Rightarrow> 32 word" where
  "be32 (a # b # c # d # _) =
     push_bit 24 (ucast a) OR push_bit 16 (ucast b) OR push_bit 8 (ucast c) OR ucast d"
| "be32 _ = 0"

definition be32_bytes :: "32 word \<Rightarrow> byte list" where
  "be32_bytes w = [ucast (drop_bit 24 w), ucast (drop_bit 16 w), ucast (drop_bit 8 w), ucast w]"

definition sha1_pad :: "byte list \<Rightarrow> byte list" where
  "sha1_pad bs =
     (let l = (of_nat (8 * length bs) :: 64 word)
      in bs @ [0x80] @ replicate ((119 - length bs mod 64) mod 64) 0 @
         be32_bytes (ucast (drop_bit 32 l)) @ be32_bytes (ucast l))"

function chunks :: "nat \<Rightarrow> 'a list \<Rightarrow> 'a list list" where
  "chunks n xs = (if n = 0 \<or> xs = [] then [] else take n xs # chunks n (drop n xs))"
  by pat_completeness auto
termination
  by (relation "measure (\<lambda>(n, xs). length xs)") auto

declare chunks.simps [simp del]

fun sha1_schedule :: "nat \<Rightarrow> 32 word list \<Rightarrow> 32 word list" where
  "sha1_schedule 0 w = w"
| "sha1_schedule (Suc k) w =
     (let t = length w
      in sha1_schedule k
           (w @ [rotl 1 (w ! (t - 3) XOR w ! (t - 8) XOR w ! (t - 14) XOR w ! (t - 16))]))"

definition sha1_f :: "nat \<Rightarrow> 32 word \<Rightarrow> 32 word \<Rightarrow> 32 word \<Rightarrow> 32 word" where
  "sha1_f t b c d =
     (if t < 20 then (b AND c) OR (NOT b AND d)
      else if t < 40 then b XOR c XOR d
      else if t < 60 then (b AND c) OR (b AND d) OR (c AND d)
      else b XOR c XOR d)"

definition sha1_k :: "nat \<Rightarrow> 32 word" where
  "sha1_k t =
     (if t < 20 then 0x5A827999 else if t < 40 then 0x6ED9EBA1
      else if t < 60 then 0x8F1BBCDC else 0xCA62C1D6)"

type_synonym sha1_state = "32 word \<times> 32 word \<times> 32 word \<times> 32 word \<times> 32 word"

fun sha1_round :: "32 word list \<Rightarrow> sha1_state \<Rightarrow> nat \<Rightarrow> sha1_state" where
  "sha1_round w (a, b, c, d, e) t =
     (rotl 5 a + sha1_f t b c d + e + sha1_k t + w ! t, a, rotl 30 b, c, d)"

fun sha1_block :: "sha1_state \<Rightarrow> byte list \<Rightarrow> sha1_state" where
  "sha1_block (h0, h1, h2, h3, h4) block =
     (let w = sha1_schedule 64 (map be32 (chunks 4 block))
      in case foldl (sha1_round w) (h0, h1, h2, h3, h4) [0..<80] of
           (a, b, c, d, e) \<Rightarrow> (h0 + a, h1 + b, h2 + c, h3 + d, h4 + e))"

definition sha1 :: "byte list \<Rightarrow> byte list" where
  "sha1 bs =
     (case foldl sha1_block (0x67452301, 0xEFCDAB89, 0x98BADCFE, 0x10325476, 0xC3D2E1F0)
             (chunks 64 (sha1_pad bs)) of
        (h0, h1, h2, h3, h4) \<Rightarrow>
          be32_bytes h0 @ be32_bytes h1 @ be32_bytes h2 @ be32_bytes h3 @ be32_bytes h4)"

text \<open>\<open>Number.prototype.toString(36)\<close> on a non-negative integer.\<close>

definition digit36 :: "nat \<Rightarrow> char" where
  "digit36 d = ''0123456789abcdefghijklmnopqrstuvwxyz'' ! d"

function toString36 :: "nat \<Rightarrow> string" where
  "toString36 n = (if n < 36 then [digit36 n] else toString36 (n div 36) @ [digit36 (n mod 36)])"
  by pat_completeness auto
termination
  by (relation "measure id") auto

declare toString36.simps [simp del]

definition readUInt32LE :: "byte \<Rightarrow> byte \<Rightarrow> byte \<Rightarrow> byte \<Rightarrow> nat" where
  "readUInt32LE a b c d = unat a + 256 * unat b + 65536 * unat c + 16777216 * unat d"

text \<open>
  \<^verbatim>\<open>function base36EncodeBuf(buf) {
    let s = ""
    for (let i = 0; i < buf.length; i += 4) { s += buf.readUInt32LE(i).toString(36) }
    return s }\<close>
  \<open>readUInt32LE\<close> throws a RangeError when fewer than four bytes are left at the offset:
  with the code \<open>ERR_BUFFER_OUT_OF_BOUNDS\<close> when the whole buffer is shorter than four bytes,
  and \<open>ERR_OUT_OF_RANGE\<close> otherwise. \<open>base36_loop\<close> is the loop, given \<open>buf.length\<close> and the
  bytes from the offset on.
\<close>

fun base36_loop :: "nat \<Rightarrow> byte list \<Rightarrow> error + string" where
  "base36_loop n [] = Inr []"
| "base36_loop n (a # b # c # d # buf) =
     (case base36_loop n buf of
        Inl e \<Rightarrow> Inl e
      | Inr s \<Rightarrow> Inr (toString36 (readUInt32LE a b c d) @ s))"
| "base36_loop n _ =
     Inl (RangeError (if n < 4 then ''ERR_BUFFER_OUT_OF_BOUNDS'' else ''ERR_OUT_OF_RANGE''))"

definition base36EncodeBuf :: "byte list \<Rightarrow> error + string" where
  "base36EncodeBuf buf = base36_loop (length buf) buf"

text \<open>
  \<^verbatim>\<open>function projectIDForConfig(config) {
    let projectID = config[PROJECT_ID]
    if (!projectID) {
      const projectKey = [config.cwd, config.outfile||"", ...(
        Array.isArray(config.entryPoints) ? config.entryPoints :
        config.entryPoints ? [config.entryPoints] :
        []
      )].join(Path.delimiter)
      projectID = base36EncodeBuf(sha1(Buffer.from(projectKey, "utf8")))
      Object.defineProperty(config, PROJECT_ID, { value: projectID })
    }
    return projectID }\<close>
  \<open>Path.delimiter\<close> depends on the platform (\<open>:\<close> or \<open>;\<close>) and is a parameter. \<open>join\<close> writes
  an \<open>undefined\<close> element as the empty string. The property that \<open>defineProperty\<close> creates
  cannot be redefined with another value.
\<close>

fun entryPoints_list :: "entryval \<Rightarrow> string list" where
  "entryPoints_list (Arr xs) = xs"
| "entryPoints_list (Str s) = (if s \<noteq> [] then [s] else [])"
| "entryPoints_list Unset = []"

definition projectKey :: "string \<Rightarrow> config \<Rightarrow> string" where
  "projectKey delimiter cfg =
     join delimiter
       ([case cwd cfg of None \<Rightarrow> [] | Some d \<Rightarrow> d,
         if str_truthy (outfile cfg) then the (outfile cfg) else []]
        @ entryPoints_list (entryPoints cfg))"

definition projectIDForConfig :: "string \<Rightarrow> config \<Rightarrow> error + string \<times> config" where
  "projectIDForConfig delimiter cfg =
     (if str_truthy (PROJECT_ID cfg) then Inr (the (PROJECT_ID cfg), cfg)
      else case base36EncodeBuf (sha1 (utf8 (projectKey delimiter cfg))) of
             Inl e \<Rightarrow> Inl e
           | Inr projectID \<Rightarrow>
               (if PROJECT_ID cfg = None then Inr (projectID, cfg\<lparr>PROJECT_ID := Some projectID\<rparr>)
                else Inl (TypeError ''Cannot redefine property: Symbol(PROJECT_ID)'')))"

section \<open>Config normalisation (\<open>processConfig\<close>, \<open>guessEntryPoints\<close>)\<close>

text \<open>
  \<open>tsutil.getTSConfigForConfig(config)\<close> reads the project's tsconfig.json and is outside
  the modelled files: its result (\<open>None\<close> when no file is found) is a parameter, as are
  \<open>glob.glob\<close> and \<open>glob.match\<close> of the miniglob package.
\<close>

record tsconfig =
  ts_files :: "string list option"
  ts_include :: "string list option"
  ts_exclude :: "string list option"

text \<open>
  \<^verbatim>\<open>function guessEntryPoints(config) {
    const tsconfig = tsutil.getTSConfigForConfig(config)
    if (tsconfig) {
      if (tsconfig.files) { return tsconfig.files }
      if (tsconfig.include) {
        let files = []
        for (let pat of tsconfig.include) { files = files.concat(glob.glob(pat)) }
        if (tsconfig.exclude) {
          for (let pat of tsconfig.exclude) { files = files.filter(fn => !glob.match(pat, fn)) }
        }
        return files.slice(0, 1)
      }
    }
    return [] }\<close>
  An array is truthy also when it is empty.
\<close>

definition guessEntryPoints ::
  "(string \<Rightarrow> string list) \<Rightarrow> (string \<Rightarrow> string \<Rightarrow> bool) \<Rightarrow> tsconfig option \<Rightarrow> string list" where
  "guessEntryPoints glob globmatch tsconfig =
     (case tsconfig of
        None \<Rightarrow> []
      | Some t \<Rightarrow>
          (case ts_files t of
             Some fs \<Rightarrow> fs
           | None \<Rightarrow>
               (case ts_include t of
                  None \<Rightarrow> []
                | Some pats \<Rightarrow>
                    (let files = concat (map glob pats);
                         files' = foldl (\<lambda>fs pat. filter (\<lambda>fn. \<not> globmatch pat fn) fs) files
                                    (case ts_exclude t of None \<Rightarrow> [] | Some xs \<Rightarrow> xs)
                     in take 1 files'))))"

fun entry_truthy :: "entryval \<Rightarrow> bool" where
  "entry_truthy Unset = False"
| "entry_truthy (Str s) = (s \<noteq> [])"
| "entry_truthy (Arr _) = True"

text \<open>
  \<^verbatim>\<open>if (!config.entryPoints) { config.entryPoints = [] }
  if (config.entry) {
    if (Array.isArray(config.entry)) {
      config.entryPoints = config.entryPoints.concat(config.entry)
    } else {
      config.entryPoints.push(config.entry)
    }
  }
  delete config.entry\<close>
  On an array, \<open>concat\<close> appends and \<open>push\<close> adds one element. When \<open>config.entryPoints\<close> is
  a (non-empty) string, \<open>concat\<close> is the string's: it appends the array written with commas;
  and a string has no \<open>push\<close>.
\<close>

definition merge_entry :: "config \<Rightarrow> error + config" where
  "merge_entry cfg =
     (let eps = (if entry_truthy (entryPoints cfg) then entryPoints cfg else Arr [])
      in case
           (if entry_truthy (entry cfg) then
              (case (entry cfg, eps) of
                 (Arr es, Arr xs) \<Rightarrow> Inr (Arr (xs @ es))
               | (Arr es, Str s) \<Rightarrow> Inr (Str (s @ join '','' es))
               | (Str e, Arr xs) \<Rightarrow> Inr (Arr (xs @ [e]))
               | (Str e, Str s) \<Rightarrow> Inl (TypeError ''config.entryPoints.push is not a function'')
               | (_, _) \<Rightarrow> Inr eps)
            else Inr eps)
         of Inl e \<Rightarrow> Inl e
          | Inr eps' \<Rightarrow> Inr (cfg\<lparr>entryPoints := eps', entry := Unset\<rparr>))"

fun entry_length :: "entryval \<Rightarrow> nat" where
  "entry_length Unset = 0"
| "entry_length (Str s) = length s"
| "entry_length (Arr xs) = length xs"

text \<open>
  \<^verbatim>\<open>if (config.entryPoints.length == 0) {
    config.entryPoints = guessEntryPoints(config)
    if (config.entryPoints.length == 0) {
      let msg = tsutil.getTSConfigForConfig(config) ? " (could not guess from tsconfig.json)" : ""
      throw new Error(`config.entryPoints is empty or not set${msg}`)
    }
  }\<close>
\<close>

definition infer_entryPoints ::
  "(string \<Rightarrow> string list) \<Rightarrow> (string \<Rightarrow> string \<Rightarrow> bool) \<Rightarrow> tsconfig option \<Rightarrow> config \<Rightarrow> error + config" where
  "infer_entryPoints glob globmatch tsconfig cfg =
     (if entry_length (entryPoints cfg) = 0 then
        (let guessed = guessEntryPoints glob globmatch tsconfig
         in if length guessed = 0 then
              Inl (Error (''config.entryPoints is empty or not set'' @
                          (if tsconfig \<noteq> None then '' (could not guess from tsconfig.json)''
                           else [])))
            else Inr (cfg\<lparr>entryPoints := Arr guessed\<rparr>))
      else Inr cfg)"

text \<open>
  \<^verbatim>\<open>if (config.sourcemap) {
    if (config.sourcemap != "inline" && config.sourcemap != "external") { config.sourcemap = true }
  } else { config.sourcemap = false }\<close>
\<close>

definition normalize_sourcemap :: "jsval \<Rightarrow> jsval" where
  "normalize_sourcemap v =
     (if truthy v then
        (if v \<noteq> JStr ''inline'' \<and> v \<noteq> JStr ''external'' then JBool True else v)
      else JBool False)"

text \<open>
  \<open>processConfig(config)\<close> is the three steps above. Its last statement is a \<open>log.debug\<close> whose
  message is built only when debug logging is on, and building it calls
  \<open>projectIDForConfig(config)\<close>, which memoizes the project id on the object.
\<close>

definition processConfig ::
  "string \<Rightarrow> bool \<Rightarrow> (string \<Rightarrow> string list) \<Rightarrow> (string \<Rightarrow> string \<Rightarrow> bool) \<Rightarrow> tsconfig option \<Rightarrow>
   config \<Rightarrow> error + config" where
  "processConfig delimiter log_debug glob globmatch tsconfig cfg =
     (case merge_entry cfg of
        Inl e \<Rightarrow> Inl e
      | Inr cfg1 \<Rightarrow>
          (case infer_entryPoints glob globmatch tsconfig cfg1 of
             Inl e \<Rightarrow> Inl e
           | Inr cfg2 \<Rightarrow>
               (let cfg3 = cfg2\<lparr>sourcemap := normalize_sourcemap (sourcemap cfg2)\<rparr>
                in if log_debug then
                     (case projectIDForConfig delimiter cfg3 of
                        Inl e \<Rightarrow> Inl e
                      | Inr (_, cfg4) \<Rightarrow> Inr cfg4)
                   else Inr cfg3)))"

section \<open>The build cycle (\<open>_esbuild\<close>, \<open>onBuildSuccess\<close>, \<open>onBuildFail\<close>, \<open>onEnd\<close>)\<close>

text \<open>
  What the outside world does in one cycle: how the promise of \<open>esbuild.build\<close> settles
  (resolved with \<open>{ warnings }\<close>, or rejected with an error object that may carry
  \<open>warnings\<close> and \<open>errors\<close>, and has a string form and possibly a stack), whether
  \<open>patchSourceMap\<close> (file reads and writes) throws, whether \<open>chmod\<close> throws (with the
  message of its error), and whether the calls that move the process into the project
  directory and back throw: \<open>process.cwd()\<close>, \<open>process.chdir(config.cwd)\<close> and
  \<open>process.chdir(tmpcwd)\<close>.
\<close>

record build_error =
  err_warnings :: "string list option"
  err_errors :: "string list option"
  err_string :: string
  err_stack :: "string option"

datatype esbuild_result = BuildResolved "string list option" | BuildRejected build_error

record env =
  esbuild_build :: esbuild_result
  patchSourceMap_throws :: "error option"
  chmod_throws :: "string option"
  process_cwd_throws :: "error option"
  chdir_throws :: "error option"
  chdir_back_throws :: "error option"

text \<open>
  Calling a hook: its handle operations run, and one that throws makes the call throw.
\<close>

definition call_hook :: "hook_result \<Rightarrow> state \<Rightarrow> (error + jsval) \<times> state" where
  "call_hook r s =
     (case r of
        HookThrows e \<Rightarrow> (Inl e, s)
      | HookReturns v ops \<Rightarrow>
          (case run_hops ops s of
             (Some e, s') \<Rightarrow> (Inl e, s')
           | (None, s') \<Rightarrow> (Inr v, s')))"

text \<open>
  \<^verbatim>\<open>function logWarnings(warnings) {
    if (warnings.length > 0) { log.warn("[warn] " + warnings.map(m => m.text).join("\n")) } }
  function logErrors(errors) {
    if (errors.length > 0) { log.error(errors.map(m => m.text).join("\n")) } }\<close>
\<close>

definition logWarnings :: "string list \<Rightarrow> state \<Rightarrow> state" where
  "logWarnings ws s =
     (if length ws > 0 then emit (Log Warn (''[warn] '' @ join [CHR 0x0A] ws)) s else s)"

definition logErrors :: "string list \<Rightarrow> state \<Rightarrow> state" where
  "logErrors es s = (if length es > 0 then emit (Log Err (join [CHR 0x0A] es)) s else s)"

text \<open>
  \<^verbatim>\<open>function setErrorExitCode(code) {
    if (!_setErrorExitCode) {
      _setErrorExitCode = true
      let overrideCode = code || 1
      process.exitCode = overrideCode
      process.on("exit", code => { process.exit(code || overrideCode) }) } }\<close>
  Both callers end with the code 1.
\<close>

definition setErrorExitCode :: "state \<Rightarrow> state" where
  "setErrorExitCode s =
     (if \<not> setErrorExitCode_done s then emit SetErrorExitCode (s\<lparr>setErrorExitCode_done := True\<rparr>)
      else s)"

text \<open>
  \<^verbatim>\<open>let onEnd = (
    userOnEnd ? async (props, defaultReturn) => {
      isInsideCallToUserOnEnd = true
      let returnValue = undefined
      try {
        const r = userOnEnd(config, props, ctx)
        returnValue = r instanceof Promise ? await r : r
      } catch (err) {
        log.debug(()=>`error in onEnd handler: ${err.stack||err}`)
        throw err
      } finally {
        isInsideCallToUserOnEnd = false
      }
      logErrors( (props && props.errors) ? props.errors : [] )
      return returnValue === undefined ? defaultReturn : !!returnValue
    } : (props, defaultReturn) => {
      logErrors( (props && props.errors) ? props.errors : [] )
      return defaultReturn
    } )\<close>
\<close>

definition onEnd_inner :: "config \<Rightarrow> props \<Rightarrow> bool \<Rightarrow> state \<Rightarrow> (error + jsval) \<times> state" where
  "onEnd_inner cfg props defaultReturn s =
     (case onEnd cfg of
        Some userOnEnd \<Rightarrow>
          (let s1 = emit UserOnEndCalled (s\<lparr>isInsideCallToUserOnEnd := True\<rparr>)
           in case call_hook (userOnEnd props) s1 of
                (Inl err, s2) \<Rightarrow>
                  (Inl err,
                   (emit (Log Debug ''error in onEnd handler'') s2)
                     \<lparr>isInsideCallToUserOnEnd := False\<rparr>)
              | (Inr returnValue, s2) \<Rightarrow>
                  (let s3 = s2\<lparr>isInsideCallToUserOnEnd := False\<rparr>;
                       s4 = logErrors (errors props) s3
                   in (Inr (if returnValue = JUndefined then JBool defaultReturn
                            else JBool (truthy returnValue)), s4)))
      | None \<Rightarrow> (Inr (JBool defaultReturn), logErrors (errors props) s))"

text \<open>
  \<^verbatim>\<open>if (config.outfileMode && config.outfile) {
    let onEndInner = onEnd
    onEnd = (props, defaultReturn) => {
      try { chmod(config.outfile, config.outfileMode) }
      catch (err) {
        log.error("configuration error: outfileMode: " + err.message)
        setErrorExitCode(1) }
      return onEndInner(props, defaultReturn) } }\<close>
\<close>

definition onEnd_wrapped ::
  "config \<Rightarrow> env \<Rightarrow> props \<Rightarrow> bool \<Rightarrow> state \<Rightarrow> (error + jsval) \<times> state" where
  "onEnd_wrapped cfg ev props defaultReturn s =
     (if truthy (outfileMode cfg) \<and> str_truthy (outfile cfg) then
        (let s1 = emit Chmod s;
             s2 = (case chmod_throws ev of
                     Some msg \<Rightarrow>
                       setErrorExitCode
                         (emit (Log Err (''configuration error: outfileMode: '' @ msg)) s1)
                   | None \<Rightarrow> s1)
         in onEnd_inner cfg props defaultReturn s2)
      else onEnd_inner cfg props defaultReturn s)"

text \<open>
  \<^verbatim>\<open>function onBuildSuccess(timeStart, { warnings }) {
    logWarnings(warnings || [])
    const outfile = config.outfile
    const time = fmtDuration(clock() - timeStart)
    if (!outfile) {
      log.info(style.green(
        config.outdir ? `Wrote to dir ${config.outdir} (${time})` :
        `Finished (write=false, ${time})` ))
    } else {
      let outname = outfile
      if (config.sourcemap && config.sourcemap != "inline") {
        ...
        patchSourceMap(Path.resolve(config.cwd, config.outfile + ".map"), { ... })
      }
      let size = 0
      try { size = fs.statSync(outfile).size } catch(_) {}
      log.info(style.green(`Wrote ${outname}`) + ` (${fmtByteSize(size)}, ${time})`)
    }
    return onEnd({ warnings, errors: [] }, true) }\<close>
  The informational messages carry times and sizes; the model keeps their fixed head.
\<close>

definition onBuildSuccess ::
  "config \<Rightarrow> env \<Rightarrow> string list option \<Rightarrow> state \<Rightarrow> (error + jsval) \<times> state" where
  "onBuildSuccess cfg ev ws s =
     (let s1 = logWarnings (case ws of None \<Rightarrow> [] | Some w \<Rightarrow> w) s;
          props = \<lparr>warnings = ws, errors = []\<rparr>
      in if \<not> str_truthy (outfile cfg) then
           onEnd_wrapped cfg ev props True
             (emit (Log Info (if str_truthy (outdir cfg) then ''Wrote to dir''
                              else ''Finished (write=false)'')) s1)
         else if truthy (sourcemap cfg) \<and> sourcemap cfg \<noteq> JStr ''inline'' then
           (case patchSourceMap_throws ev of
              Some e \<Rightarrow> (Inl e, emit PatchSourceMap s1)
            | None \<Rightarrow>
                onEnd_wrapped cfg ev props True (emit (Log Info ''Wrote'') (emit PatchSourceMap s1)))
         else onEnd_wrapped cfg ev props True (emit (Log Info ''Wrote'') s1))"

text \<open>
  \<^verbatim>\<open>function onBuildFail(timeStart, err, options) {
    let warnings = err.warnings || []
    let errors = err.errors || []
    let showStackTrace = options && options.showStackTrace
    if (errors.length == 0) {
      errors.push({
        text: String(showStackTrace && err.stack ? err.stack : err),
        location: null, }) }
    logWarnings(warnings)
    return onEnd({ warnings, errors }, false) }\<close>
  \<open>onBuildFail_props\<close> is the object \<open>{ warnings, errors }\<close> that the function builds.
\<close>

definition onBuildFail_props :: "build_error \<Rightarrow> bool \<Rightarrow> props" where
  "onBuildFail_props err showStackTrace =
     (let ws = (case err_warnings err of None \<Rightarrow> [] | Some w \<Rightarrow> w);
          es0 = (case err_errors err of None \<Rightarrow> [] | Some e \<Rightarrow> e);
          es = (if length es0 = 0 then
                  es0 @ [if showStackTrace \<and> str_truthy (err_stack err) then the (err_stack err)
                         else err_string err]
                else es0)
      in \<lparr>warnings = Some ws, errors = es\<rparr>)"

definition onBuildFail ::
  "config \<Rightarrow> env \<Rightarrow> build_error \<Rightarrow> bool \<Rightarrow> state \<Rightarrow> (error + jsval) \<times> state" where
  "onBuildFail cfg ev err showStackTrace s =
     (let props = onBuildFail_props err showStackTrace;
          s1 = logWarnings (the (warnings props)) s
      in onEnd_wrapped cfg ev props False s1)"

text \<open>
  \<^verbatim>\<open>async function _esbuild(changedFiles) {
    if (config.watch && config.clear) { clear() }
    if (config.onStart) {
      try {
        const r = config.onStart(config, changedFiles, ctx)
        if (r instanceof Promise) { await r }
      } catch (err) {
        log.debug(()=>`error in onStart handler: ${err.stack||err}`)
        throw err } }
    if (config[CANCELED]) { return }
    log.debug(...)
    const tmpcwd = process.cwd()
    process.chdir(config.cwd)
    const esbuildPromise = esbuild.build(esbuildOptions)
    process.chdir(tmpcwd)
    return esbuildPromise.then(
      onBuildSuccess.bind(null, clock()),
      onBuildFail.bind(null, clock()), ) }\<close>
  The function is modelled in two halves: \<open>esbuild_begin\<close> runs up to the call of
  \<open>esbuild.build\<close> and the return to the former directory, \<open>esbuild_settle\<close> is the pair of
  handlers given to \<open>then\<close> (where \<open>onBuildFail\<close> gets no \<open>options\<close>). \<open>esbuild_cycle\<close> is
  the whole of \<open>_esbuild\<close>, for a cycle during which nothing else runs.

  Which object \<open>config\<close> is here matters for \<open>config[CANCELED]\<close>. \<open>build\<close> makes the property
  on its own copy of the configuration,
  \<^verbatim>\<open>config = config ? {...config} : {}
  Object.defineProperty(config, CANCELED, { value: false, writable: true })\<close>
  and \<open>cancel\<close>, \<open>addCancelCallback\<close> and the deferred start of \<open>build\<close> use that object.
  \<open>build1\<close> begins with
  \<^verbatim>\<open>const isMainCall = IS_MAIN_CALL in config
  delete config[IS_MAIN_CALL]
  ...
  if (!isMainCall) {
    config = {...config} // mutable copy
    processConfig(config)
  } else { ... }\<close>
  A property made by \<open>defineProperty\<close> without \<open>enumerable: true\<close> is not enumerable, and
  the spread copies enumerable properties only. So when \<open>build\<close> is called as a function,
  the object that \<open>build1\<close> and \<open>_esbuild\<close> hold has no \<open>CANCELED\<close> property, and
  \<open>config[CANCELED]\<close> is \<open>undefined\<close> there whatever \<open>cancel\<close> has done; only in the main call
  (the program run directly) do they hold the object of \<open>build\<close>.
\<close>

definition config_CANCELED :: "bool \<Rightarrow> state \<Rightarrow> bool" where
  "config_CANCELED isMainCall s = (isMainCall \<and> CANCELED s)"

datatype begun = Threw error | ReturnedUndefined | Invoked

definition esbuild_begin :: "bool \<Rightarrow> config \<Rightarrow> env \<Rightarrow> string list \<Rightarrow> state \<Rightarrow> begun \<times> state" where
  "esbuild_begin isMainCall cfg ev changedFiles s =
     (let s1 = (if truthy (watch cfg) \<and> truthy (clear cfg) then emit ScreenClear s else s)
      in case (case onStart cfg of
                 None \<Rightarrow> (Inr JUndefined, s1)
               | Some h \<Rightarrow> call_hook (h changedFiles) (emit (OnStartCalled changedFiles) s1))
         of (Inl err, s2) \<Rightarrow> (Threw err, emit (Log Debug ''error in onStart handler'') s2)
          | (Inr _, s2) \<Rightarrow>
              (if config_CANCELED isMainCall s2 then (ReturnedUndefined, s2)
               else
                 (let s3 = emit (Log Debug ''invoking esbuild.build()'') s2
                  in case process_cwd_throws ev of
                       Some e \<Rightarrow> (Threw e, s3)
                     | None \<Rightarrow>
                         (case chdir_throws ev of
                            Some e \<Rightarrow> (Threw e, s3)
                          | None \<Rightarrow>
                              (let s4 = emit EsbuildBuild s3
                               in case chdir_back_throws ev of
                                    Some e \<Rightarrow> (Threw e, s4)
                                  | None \<Rightarrow> (Invoked, s4))))))"

definition esbuild_settle :: "config \<Rightarrow> env \<Rightarrow> state \<Rightarrow> (error + jsval) \<times> state" where
  "esbuild_settle cfg ev s =
     (case esbuild_build ev of
        BuildResolved ws \<Rightarrow> onBuildSuccess cfg ev ws s
      | BuildRejected err \<Rightarrow> onBuildFail cfg ev err False s)"

definition esbuild_cycle ::
  "bool \<Rightarrow> config \<Rightarrow> env \<Rightarrow> string list \<Rightarrow> state \<Rightarrow> (error + jsval) \<times> state" where
  "esbuild_cycle isMainCall cfg ev changedFiles s =
     (case esbuild_begin isMainCall cfg ev changedFiles s of
        (Threw err, s') \<Rightarrow> (Inl err, s')
      | (ReturnedUndefined, s') \<Rightarrow> (Inr JUndefined, s')
      | (Invoked, s') \<Rightarrow> esbuild_settle cfg ev s')"

text \<open>
  \<open>ctx.rebuild\<close>. The closure that \<open>build\<close> installs:
  \<^verbatim>\<open>rebuild() {
    log.warn("rebuild() called before initial build completed. Ignoring")
    return Promise.resolve(true) }\<close>
  and the one that \<open>build1\<close> assigns:
  \<^verbatim>\<open>ctx.rebuild = () => {
    return _esbuild([]).then(ok => {
      if (isInsideCallToUserOnEnd) {
        log.warn(`waiting for rebuild() inside onEnd handler may cause a deadlock`) }
      return ok }) }\<close>
  \<open>p.rebuild\<close> of the promise that \<open>build\<close> returns is \<open>() => ctx.rebuild()\<close>.
\<close>

definition rebuild :: "bool \<Rightarrow> config \<Rightarrow> env \<Rightarrow> state \<Rightarrow> (error + jsval) \<times> state" where
  "rebuild isMainCall cfg ev s =
     (case ctx_rebuild s of
        RebuildInitial \<Rightarrow>
          (Inr (JBool True),
           emit (Log Warn ''rebuild() called before initial build completed. Ignoring'') s)
      | RebuildBuild1 \<Rightarrow>
          (case esbuild_cycle isMainCall cfg ev [] s of
             (Inl err, s') \<Rightarrow> (Inl err, s')
           | (Inr ok, s') \<Rightarrow>
               (Inr ok,
                if isInsideCallToUserOnEnd s' then
                  emit (Log Warn ''waiting for rebuild() inside onEnd handler may cause a deadlock'') s'
                else s')))"

section \<open>The type-check process registry (\<open>startTSLint\<close>)\<close>

text \<open>
  \<open>tslintOptions\<close> is a string (\<open>"auto"\<close>, \<open>"on"\<close>, \<open>"off"\<close>), a boolean, or an options object,
  of which the model keeps the \<open>mode\<close> property. \<open>a && b\<close> gives \<open>a\<close> when \<open>a\<close> is falsy and
  \<open>b\<close> otherwise.
\<close>

datatype tslint_opt = TOString string | TOBool bool | TOObject "string option"

definition js_and :: "jsval \<Rightarrow> jsval \<Rightarrow> jsval" where
  "js_and a b = (if truthy a then b else a)"

text \<open>
  \<^verbatim>\<open>function startTSLint(tslintOptions, cliopts, config) {
    let mode = tslintOptions
    let tscBasicOptions = {}
    if (tslintOptions && typeof tslintOptions == "object") {
      mode = undefined
      tscBasicOptions = tslintOptions
      if (tscBasicOptions.mode == "off") { log.debug(...); return [null, false] }
    }
    if (config.tsrules && config.tsrules.length) { log.info("The 'tsrules' property is deprecated. ..."); ... }
    const clearScreen = cliopts.diag && config.watch && config.clear
    const tsconfigFile = tsutil.getTSConfigFileForConfig(config) // string|null
    const cacheKey = `${tsconfigFile || config.cwd}`
    const existingTSLintProcess = tslintProcessCache.get(cacheKey)
    if (existingTSLintProcess) { log.debug(...); return [existingTSLintProcess, true] }
    const options = { ..., mode, ...tscBasicOptions, watch: config.watch, cwd: config.cwd,
      clearScreen, srcdir: dirname(config.entryPoints[0]), tsconfigFile, onRestart() {...} }
    log.debug(...)
    const tslintProcess = tslint(options)
    tslintProcessCache.set(cacheKey, tslintProcess)
    return [tslintProcess, false] }\<close>
  \<open>tsutil.getTSConfigFileForConfig(config)\<close> is outside the modelled files; its result is the
  parameter \<open>tsconfigFile\<close>. \<open>tslint(options)\<close> creates the subprocess handle: the model
  numbers it and records the call.
\<close>

definition cacheKey :: "string option \<Rightarrow> config \<Rightarrow> string" where
  "cacheKey tsconfigFile cfg =
     (if str_truthy tsconfigFile then the tsconfigFile
      else case cwd cfg of None \<Rightarrow> ''undefined'' | Some d \<Rightarrow> d)"

definition startTSLint ::
  "tslint_opt \<Rightarrow> jsval \<Rightarrow> string option \<Rightarrow> config \<Rightarrow> state \<Rightarrow> (nat option \<times> bool) \<times> state" where
  "startTSLint tslintOptions cliopts_diag tsconfigFile cfg s =
     (if tslintOptions = TOObject (Some ''off'') then
        ((None, False), emit (Log Debug ''tslint disabled by tslint config'') s)
      else
        (let mode = (case tslintOptions of
                       TOString m \<Rightarrow> JStr m
                     | TOBool b \<Rightarrow> JBool b
                     | TOObject None \<Rightarrow> JUndefined
                     | TOObject (Some m) \<Rightarrow> JStr m);
             s1 = (case tsrules cfg of
                     None \<Rightarrow> s
                   | Some rs \<Rightarrow>
                       if length rs \<noteq> 0 then
                         emit (Log Info ''The tsrules property is deprecated. Please use tslint.rules instead'') s
                       else s);
             clearScreen = js_and (js_and cliopts_diag (watch cfg)) (clear cfg);
             key = cacheKey tsconfigFile cfg
         in case tslintProcessCache s1 key of
              Some existingTSLintProcess \<Rightarrow>
                ((Some existingTSLintProcess, True),
                 emit (Log Debug ''tslint sharing process (no new process created)'') s1)
            | None \<Rightarrow>
                (let options = \<lparr>opt_mode = mode, opt_watch = watch cfg, opt_cwd = cwd cfg,
                                opt_clearScreen = clearScreen, opt_tsconfigFile = tsconfigFile\<rparr>;
                     tslintProcess = tslint_started s1;
                     s2 = emit (TslintStarted tslintProcess options)
                            (emit (Log Debug ''starting tslint with options'') s1);
                     s3 = s2\<lparr>tslint_started := Suc tslintProcess,
                             tslintProcessCache := (tslintProcessCache s2)(key \<mapsto> tslintProcess)\<rparr>
                 in ((Some tslintProcess, False), s3))))"

section \<open>The file watcher (\<open>watchFiles\<close>, \<open>refreshFiles\<close>)\<close>

text \<open>
  The metadata file, parsed: \<open>inputs\<close> and \<open>outputs\<close> are objects keyed by path, of which
  the code uses the keys (in the order of \<open>Object.keys\<close>); either may be missing.
  Reading or parsing the file can fail.
\<close>

record esbuildMeta =
  inputs :: "string list option"
  outputs :: "string list option"

text \<open>
  \<open>fn in outfiles\<close> holds for the object's own keys and for the properties that a parsed
  JSON object inherits from \<open>Object.prototype\<close>.
\<close>

definition Object_prototype :: "string list" where
  "Object_prototype =
     [''constructor'', ''__defineGetter__'', ''__defineSetter__'', ''hasOwnProperty'',
      ''__lookupGetter__'', ''__lookupSetter__'', ''isPrototypeOf'', ''propertyIsEnumerable'',
      ''toString'', ''valueOf'', ''__proto__'', ''toLocaleString'']"

definition js_in :: "string \<Rightarrow> string list \<Rightarrow> bool" where
  "js_in k own_keys = (k \<in> set own_keys \<or> k \<in> set Object_prototype)"

text \<open>
  \<^verbatim>\<open>const sourceFiles = []
  for (let fn of srcfiles) {
    // exclude output files to avoid a loop
    if (fn in outfiles) { continue }
    // exclude files from libraries. Some projects may include hundreds or thousands of library
    // files which would slow things down unncessarily.
    if (srcfiles.length > 100 && fn.contains(nodeModulesPathSubstr)) {  // "/node_modules/"
      continue }
    sourceFiles.push(fn) }\<close>
  A string has the method \<open>includes\<close> and no method \<open>contains\<close>: when the left operand of
  \<open>&&\<close> is true, \<open>fn.contains\<close> is \<open>undefined\<close> and calling it throws a TypeError.
\<close>

fun sourceFiles_loop :: "nat \<Rightarrow> string list \<Rightarrow> string list \<Rightarrow> string list \<Rightarrow> error + string list" where
  "sourceFiles_loop n outfiles [] sourceFiles = Inr sourceFiles"
| "sourceFiles_loop n outfiles (fn # srcfiles) sourceFiles =
     (if js_in fn outfiles then sourceFiles_loop n outfiles srcfiles sourceFiles
      else if n > 100 then Inl (TypeError ''fn.contains is not a function'')
      else sourceFiles_loop n outfiles srcfiles (sourceFiles @ [fn]))"

text \<open>
  \<^verbatim>\<open>async function refreshFiles() {
    let esbuildMeta = {}
    try { esbuildMeta = JSON.parse(await file.read(esbuildMetafile, "utf8")) }
    catch (err) { log.error(`internal error when reading esbuild metafile ...`); return }
    const srcfiles = Object.keys(esbuildMeta.inputs)
        , outfiles = esbuildMeta.outputs
    ...
    for (let fn of Object.keys(outfiles)) { fileModificationLogAppend(fn) }
    ... (the loop above)
    fswatcher.setFiles(sourceFiles) }\<close>
  The watcher is the one of the project; \<open>setFiles\<close> replaces its file list.
\<close>

definition refreshFiles :: "string \<Rightarrow> error + esbuildMeta \<Rightarrow> state \<Rightarrow> error option \<times> state" where
  "refreshFiles projectID metafile s =
     (case metafile of
        Inl err \<Rightarrow> (None, emit (Log Err ''internal error when reading esbuild metafile'') s)
      | Inr esbuildMeta \<Rightarrow>
          (case (inputs esbuildMeta, outputs esbuildMeta) of
             (Some srcfiles, Some outfiles) \<Rightarrow>
               (let s1 = foldl (\<lambda>s' fn. emit (FileModificationLogAppend fn) s') s outfiles
                in case sourceFiles_loop (length srcfiles) outfiles srcfiles [] of
                     Inl e \<Rightarrow> (Some e, s1)
                   | Inr sourceFiles \<Rightarrow>
                       (None,
                        emit (SetFiles projectID sourceFiles)
                          (s1\<lparr>fswatcherMap := (fswatcherMap s1)(projectID \<mapsto> sourceFiles)\<rparr>)))
           | (_, _) \<Rightarrow> (Some (TypeError ''Cannot convert undefined or null to object''), s)))"

text \<open>
  \<^verbatim>\<open>async function watchFiles(config, esbuildMetafile, ctx, callback) {
    const projectID = projectIDForConfig(config)
    let fswatcher = fswatcherMap.get(projectID)
    if (!fswatcher) {
      ...
      fswatcher = new FSWatcher(watchOptions)
      fswatcherMap.set(projectID, fswatcher)
      fswatcher.onChange = changedFiles => callback(changedFiles).then(refreshFiles)
      ctx.addCancelCallback(() => { fswatcher.promise.cancel() })
      log.debug(`fswatch started for project#${projectID}`)
      ... }
    async function refreshFiles() { ... }
    await refreshFiles()
    return fswatcher.promise }\<close>
  \<open>watchFiles\<close> below is the part up to the first \<open>refreshFiles\<close>; the promise of the watcher
  then stays pending until the watcher is cancelled. \<open>onChange\<close> is the watcher's change
  handler with \<open>build1\<close>'s callback, which logs the changed files and runs \<open>_esbuild\<close>.
\<close>

definition watchFiles ::
  "string \<Rightarrow> config \<Rightarrow> error + esbuildMeta \<Rightarrow> state \<Rightarrow> error option \<times> state" where
  "watchFiles delimiter cfg metafile s =
     (case projectIDForConfig delimiter cfg of
        Inl e \<Rightarrow> (Some e, s)
      | Inr (projectID, _) \<Rightarrow>
          (case (case fswatcherMap s projectID of
                   Some fswatcher \<Rightarrow> (None, s)
                 | None \<Rightarrow>
                     (case addCancelCallback (Some (Callback (FswatcherCancel projectID) Returns))
                             (s\<lparr>fswatcherMap := (fswatcherMap s)(projectID \<mapsto> [])\<rparr>) of
                        (e, s') \<Rightarrow> (e, emit (Log Debug ''fswatch started'') s')))
           of (Some e, s1) \<Rightarrow> (Some e, s1)
            | (None, s1) \<Rightarrow> refreshFiles projectID metafile s1))"

definition onChange ::
  "bool \<Rightarrow> string \<Rightarrow> config \<Rightarrow> env \<Rightarrow> error + esbuildMeta \<Rightarrow> string list \<Rightarrow> state \<Rightarrow>
   error option \<times> state" where
  "onChange isMainCall projectID cfg ev metafile changedFiles s =
     (case esbuild_cycle isMainCall cfg ev changedFiles (emit (Log Info ''files changed'') s) of
        (Inl e, s1) \<Rightarrow> (Some e, s1)
      | (Inr ok, s1) \<Rightarrow> refreshFiles projectID metafile s1)"

section \<open>\<open>build\<close> and \<open>build1\<close>\<close>

text \<open>
  \<open>build1\<close> from the point where the effective configuration and \<open>tslintOptions\<close> have
  been computed (\<open>processConfig\<close> above, then the merging with the command-line options):
  \<^verbatim>\<open>ctx.rebuild = () => { ... }
  ...
  const buildPromise = opts.diag ? null : _esbuild([])
  const [tslintProcess, tslintProcessReused] = (
    tslintOptions !== "off" ? startTSLint(tslintOptions, opts, config) : [null,false] )
  if (tslintProcess && !tslintProcessReused) {
    tslintProcess.catch(...)
    ctx.addCancelCallback(() => { tslintProcess.cancel() })
    if (cliopts.diag && config.watch && config.clear) { screen.clear() }
  }\<close>
  This part runs without interruption when \<open>onStart\<close> returns no promise. Its result is
  the begun initial cycle (none under \<open>-diag\<close>) and the type-check process. From outside
  come the world of the initial cycle, how the type-check process settles, what reading
  the metadata file gives, and how the promise of the watcher ends.
\<close>

record build1_env =
  initial :: env
  tslint_settles :: "error + jsval"
  metafile_read :: "error + esbuildMeta"
  fswatcher_promise :: "error option"

definition build1_begin ::
  "bool \<Rightarrow> tslint_opt \<Rightarrow> jsval \<Rightarrow> string option \<Rightarrow> config \<Rightarrow> build1_env \<Rightarrow> state \<Rightarrow>
   (begun option \<times> nat option \<times> bool) \<times> state" where
  "build1_begin isMainCall tslintOptions cliopts_diag tsconfigFile cfg bev s =
     (let s1 = s\<lparr>ctx_rebuild := RebuildBuild1\<rparr>;
          (buildPromise, s2) =
             (if truthy cliopts_diag then (None, s1)
              else case esbuild_begin isMainCall cfg (initial bev) [] s1 of
                     (b, s') \<Rightarrow> (Some b, s'));
          ((tslintProcess, tslintProcessReused), s3) =
             (if tslintOptions \<noteq> TOString ''off''
              then startTSLint tslintOptions cliopts_diag tsconfigFile cfg s2
              else ((None, False), s2));
          s4 = (case tslintProcess of
                  Some pid \<Rightarrow>
                    if \<not> tslintProcessReused then
                      (let s' = snd (addCancelCallback (Some (Callback (TslintCancel pid) Returns)) s3)
                       in if truthy (js_and (js_and cliopts_diag (watch cfg)) (clear cfg))
                          then emit ScreenClear s' else s')
                    else s3
                | None \<Rightarrow> s3)
      in ((buildPromise, tslintProcess, tslintProcessReused), s4))"

text \<open>
  The rest of \<open>build1\<close>:
  \<^verbatim>\<open>let ok = true
  if (buildPromise) {
    ok = await buildPromise
    if (config[CANCELED]) { return false } }
  if (config.watch) {
    await watchFiles(config, esbuildOptions.metafile, ctx, changedFiles => { ... })
    log.debug("fswatch ended")
    return true }
  if (tslintProcess) {
    let tscWaitTimer = null
    if (!ok) { log.debug(...); tslintProcess.cancel() }
    else { log.debug(...); ...; ok = await tslintProcess.catch(() => false) }
    clearTimeout(tscWaitTimer) }
  if (!config[CANCELED] && !ok) { setErrorExitCode() }
  return ok\<close>
  Here too \<open>config\<close> is the object that \<open>build1\<close> holds.
\<close>

definition build1_resume ::
  "bool \<Rightarrow> string \<Rightarrow> config \<Rightarrow> build1_env \<Rightarrow> begun option \<times> nat option \<times> bool \<Rightarrow> state \<Rightarrow>
   (error + jsval) \<times> state" where
  "build1_resume isMainCall delimiter cfg bev started s =
     (case started of (buildPromise, tslintProcess, tslintProcessReused) \<Rightarrow>
        (case (case buildPromise of
                 None \<Rightarrow> (Inr (JBool True), s)
               | Some (Threw err) \<Rightarrow> (Inl err, s)
               | Some ReturnedUndefined \<Rightarrow> (Inr JUndefined, s)
               | Some Invoked \<Rightarrow> esbuild_settle cfg (initial bev) s)
         of (Inl err, s1) \<Rightarrow> (Inl err, s1)
          | (Inr ok, s1) \<Rightarrow>
              if buildPromise \<noteq> None \<and> config_CANCELED isMainCall s1 then (Inr (JBool False), s1)
              else if truthy (watch cfg) then
                (case watchFiles delimiter cfg (metafile_read bev) s1 of
                   (Some e, s2) \<Rightarrow> (Inl e, s2)
                 | (None, s2) \<Rightarrow>
                     (case fswatcher_promise bev of
                        Some e \<Rightarrow> (Inl e, s2)
                      | None \<Rightarrow> (Inr (JBool True), emit (Log Debug ''fswatch ended'') s2)))
              else
                (let (ok', s2) =
                       (case tslintProcess of
                          None \<Rightarrow> (ok, s1)
                        | Some pid \<Rightarrow>
                            if \<not> truthy ok then
                              (ok, emit (Fired (TslintCancel pid))
                                     (emit (Log Debug ''cancelling eslint since esbuild reported an error'') s1))
                            else
                              (case tslint_settles bev of Inl e \<Rightarrow> JBool False | Inr v \<Rightarrow> v,
                               emit (Log Debug ''awaiting eslint'') s1));
                     s3 = (if \<not> config_CANCELED isMainCall s2 \<and> \<not> truthy ok'
                           then setErrorExitCode s2 else s2)
                 in (Inr ok', s3))))"

definition build1 ::
  "bool \<Rightarrow> string \<Rightarrow> tslint_opt \<Rightarrow> jsval \<Rightarrow> string option \<Rightarrow> config \<Rightarrow> build1_env \<Rightarrow> state \<Rightarrow>
   (error + jsval) \<times> state" where
  "build1 isMainCall delimiter tslintOptions cliopts_diag tsconfigFile cfg bev s =
     (case build1_begin isMainCall tslintOptions cliopts_diag tsconfigFile cfg bev s of
        (started, s1) \<Rightarrow> build1_resume isMainCall delimiter cfg bev started s1)"

text \<open>
  The start of the build, deferred by \<open>build\<close> until the command line has been parsed:
  \<^verbatim>\<open>const p = cli_ready.then(() => new Promise((resolve, reject) => {
    if (config[CANCELED]) {
      log.debug(`build cancelled immediately`)
      return false }
    resolver.resolve = resolve
    resolver.reject = reject
    build1(config, ctx).then(resolve).catch(reject) }))\<close>
  Here \<open>config\<close> is the object of \<open>build\<close> itself. When the build was cancelled before,
  neither \<open>resolve\<close> nor \<open>reject\<close> is ever called.
\<close>

definition build_start ::
  "bool \<Rightarrow> string \<Rightarrow> tslint_opt \<Rightarrow> jsval \<Rightarrow> string option \<Rightarrow> config \<Rightarrow> build1_env \<Rightarrow> state \<Rightarrow>
   state" where
  "build_start isMainCall delimiter tslintOptions cliopts_diag tsconfigFile cfg bev s =
     (if CANCELED s then emit (Log Debug ''build cancelled immediately'') s
      else case build1 isMainCall delimiter tslintOptions cliopts_diag tsconfigFile cfg bev
                  (s\<lparr>resolver_attached := True\<rparr>) of
             (Inl err, s') \<Rightarrow> settle (Rejected err) s'
           | (Inr v, s') \<Rightarrow> settle (Fulfilled v) s')"

section \<open>Observations used in the statements\<close>


text \<open>The entry points that a configuration lists itself: those of \<open>entryPoints\<close> (an
  array), followed by those of \<open>entry\<close> (a string or an array).\<close>

definition listed_entryPoints :: "config \<Rightarrow> string list" where
  "listed_entryPoints cfg =
     (case entryPoints cfg of Arr xs \<Rightarrow> xs | _ \<Rightarrow> []) @
     (case entry cfg of Arr es \<Rightarrow> es | Str e \<Rightarrow> (if e = [] then [] else [e]) | Unset \<Rightarrow> [])"

text \<open>
  A step of the program that does not call the bundler: the effects so far stay, those
  added contain no call of \<open>esbuild.build\<close>, a set \<open>CANCELED\<close> flag stays set, and
  \<open>ctx.rebuild\<close> is not assigned. The number of bundler invocations so far is
  \<open>count_list (trace s) EsbuildBuild\<close>.
\<close>

definition no_build_step :: "state \<Rightarrow> state \<Rightarrow> bool" where
  "no_build_step s s' =
     ((\<exists>es. trace s' = trace s @ es \<and> count_list es EsbuildBuild = 0) \<and>
      (CANCELED s \<longrightarrow> CANCELED s') \<and> ctx_rebuild s' = ctx_rebuild s)"

text \<open>The calls that move the process into the project directory and back succeed.\<close>

definition chdir_ok :: "env \<Rightarrow> bool" where
  "chdir_ok ev =
     (process_cwd_throws ev = None \<and> chdir_throws ev = None \<and> chdir_back_throws ev = None)"



section \<open>Example inputs\<close>

text \<open>A metadata file with 101 inputs \<open>src/m.ts\<close>, \<open>src/mx.ts\<close>, \<open>src/mxx.ts\<close>, ... and one
  output.\<close>

definition meta101 :: esbuildMeta where
  "meta101 = \<lparr>inputs = Some (map (\<lambda>i. ''src/m'' @ replicate i CHR ''x'' @ ''.ts'') [0..<101]),
              outputs = Some [''out.js'']\<rparr>"

text \<open>A configuration as \<open>build1\<close> has it after normalisation: one entry point, an output
  file, no watch mode, no hooks.\<close>

definition example_config :: config where
  "example_config =
     \<lparr>cwd = Some ''/proj'', outfile = Some ''out.js'', outdir = None,
      entryPoints = Arr [''a.ts''], entry = Unset, sourcemap = JBool False,
      watch = JBool False, clear = JBool False, quiet = JBool False,
      outfileMode = JUndefined, tsrules = None, onStart = None, onEnd = None,
      PROJECT_ID = None\<rparr>"

text \<open>The same in watch mode with screen clearing and an \<open>onStart\<close> hook that returns at
  once; and with an \<open>onEnd\<close> hook that returns the given value and leaves the handle
  alone.\<close>

definition example_watch_config :: config where
  "example_watch_config =
     example_config\<lparr>watch := JBool True, clear := JBool True,
                    onStart := Some (\<lambda>changedFiles. HookReturns JUndefined [])\<rparr>"

definition example_onEnd_config :: "jsval \<Rightarrow> config" where
  "example_onEnd_config v = example_config\<lparr>onEnd := Some (\<lambda>props. HookReturns v [])\<rparr>"

text \<open>A project with three sources, one of them a test that the tsconfig excludes.\<close>

definition example_glob :: "string \<Rightarrow> string list" where
  "example_glob pat =
     (if pat = ''src/*.ts'' then [''src/a.test.ts'', ''src/a.ts'', ''src/b.ts''] else [])"

definition example_globmatch :: "string \<Rightarrow> string \<Rightarrow> bool" where
  "example_globmatch pat fn = (pat = ''**/*.test.ts'' \<and> fn = ''src/a.test.ts'')"

definition example_tsconfig :: tsconfig where
  "example_tsconfig =
     \<lparr>ts_files = None, ts_include = Some [''src/*.ts''], ts_exclude = Some [''**/*.test.ts'']\<rparr>"

text \<open>A bundler that resolves without warnings, and one that rejects with an error that
  carries no \<open>errors\<close> list; the file operations succeed.\<close>

definition example_env :: env where
  "example_env =
     \<lparr>esbuild_build = BuildResolved (Some []), patchSourceMap_throws = None, chmod_throws = None,
      process_cwd_throws = None, chdir_throws = None, chdir_back_throws = None\<rparr>"

definition example_failing_env :: env where
  "example_failing_env =
     \<lparr>esbuild_build = BuildRejected
        \<lparr>err_warnings = None, err_errors = None, err_string = ''Error: boom'', err_stack = None\<rparr>,
      patchSourceMap_throws = None, chmod_throws = None,
      process_cwd_throws = None, chdir_throws = None, chdir_back_throws = None\<rparr>"

text \<open>A metadata file with two inputs and one output; and the world of a build: that of
  its initial cycle, a type check that passes or fails, this metadata file, and a watcher
  whose promise resolves.\<close>

definition example_meta :: esbuildMeta where
  "example_meta = \<lparr>inputs = Some [''a.ts'', ''lib.ts''], outputs = Some [''out.js'']\<rparr>"

definition example_build1_env :: "env \<Rightarrow> bool \<Rightarrow> build1_env" where
  "example_build1_env ev typecheck_passes =
     \<lparr>initial = ev, tslint_settles = Inr (JBool typecheck_passes),
      metafile_read = Inr example_meta, fswatcher_promise = None\<rparr>"

section \<open>Properties of the build handle\<close>

lemma fired_append: "fired (xs @ ys) = fired xs @ fired ys"
  by (induction xs rule: fired.induct) simp_all

lemma callback_ids_append: "callback_ids (xs @ ys) = callback_ids xs @ callback_ids ys"
  by (induction xs rule: callback_ids.induct) simp_all

lemma run_callbacks_no_throw:
  "\<forall>f \<in> set fs. no_throw f \<Longrightarrow>
   run_callbacks fs s = (None, s\<lparr>trace := trace s @ map Fired (callback_ids fs)\<rparr>)"
proof (induction fs arbitrary: s)
  case Nil
  show ?case by simp
next
  case (Cons f fs)
  show ?case
  proof (cases f)
    case None
    with Cons show ?thesis by simp
  next
    case (Some c)
    obtain i b where c: "c = Callback i b" by (cases c)
    with Cons.prems Some have b: "b = Returns" by simp
    have "run_callbacks (f # fs) s = run_callbacks fs (emit (Fired i) s)"
      by (simp add: Some c b)
    also have "\<dots> = (None, (emit (Fired i) s)\<lparr>trace := trace (emit (Fired i) s) @ map Fired (callback_ids fs)\<rparr>)"
      using Cons.prems by (intro Cons.IH) simp
    finally show ?thesis by (simp add: Some c emit_def)
  qed
qed

lemma fired_map_Fired: "fired (map Fired is) = is"
  by (induction "is") simp_all

lemma run_callbacks_CANCELED: "CANCELED (snd (run_callbacks fs s)) = CANCELED s"
proof (induction fs s rule: run_callbacks.induct)
  case (3 f fs s)
  obtain i b where f: "f = Callback i b" by (cases f)
  show ?case
  proof (cases b)
    case Returns
    with 3 f show ?thesis by (simp add: emit_def)
  next
    case (Throws e)
    with f show ?thesis by (simp add: emit_def)
  qed
qed simp_all

lemma cancel_sets_CANCELED: "CANCELED (snd (cancel r s))"
proof (cases "CANCELED s")
  case True
  then show ?thesis by (simp add: cancel_def)
next
  case False
  let ?s2 = "(emit (Log Debug ''build cancelled'') s)\<lparr>CANCELED := True\<rparr>"
  have c: "CANCELED (snd (run_callbacks (cancelCallbacks ?s2) ?s2))"
    by (simp add: run_callbacks_CANCELED)
  obtain e s3 where r: "run_callbacks (cancelCallbacks ?s2) ?s2 = (e, s3)" by fastforce
  with c have "CANCELED s3" by simp
  with False r show ?thesis
    by (cases e) (simp_all add: cancel_def Let_def resolver_reject_def resolver_resolve_def settle_def)
qed

lemma cancel_when_CANCELED: "CANCELED s \<Longrightarrow> cancel r s = (None, s)"
  by (simp add: cancel_def)

lemma cancel_no_throw:
  assumes "\<forall>f \<in> set (cancelCallbacks s). no_throw f" and "\<not> CANCELED s"
  shows "fst (cancel r s) = None"
    and "fired (trace (snd (cancel r s))) = fired (trace s) @ callback_ids (cancelCallbacks s)"
    and "cancelCallbacks (snd (cancel r s)) = []"
proof -
  let ?s2 = "(emit (Log Debug ''build cancelled'') s)\<lparr>CANCELED := True\<rparr>"
  have cb: "cancelCallbacks ?s2 = cancelCallbacks s" by (simp add: emit_def)
  have r: "run_callbacks (cancelCallbacks ?s2) ?s2 =
      (None, ?s2\<lparr>trace := trace ?s2 @ map Fired (callback_ids (cancelCallbacks ?s2))\<rparr>)"
    using assms(1) unfolding cb by (rule run_callbacks_no_throw)
  show "fst (cancel r s) = None"
    using assms(2) r by (simp add: cancel_def Let_def)
  show "fired (trace (snd (cancel r s))) = fired (trace s) @ callback_ids (cancelCallbacks s)"
    using assms(2) r
    by (simp add: cancel_def Let_def emit_def fired_append fired_map_Fired
        resolver_reject_def resolver_resolve_def settle_def)
  show "cancelCallbacks (snd (cancel r s)) = []"
    using assms(2) r
    by (simp add: cancel_def Let_def resolver_reject_def resolver_resolve_def settle_def)
qed

text \<open>
  Claim C5. \<open>cancel\<close> is idempotent: whatever the first call did, a second call (with
  any reason) returns without changing anything: no callback runs, nothing is logged,
  the promise is not touched. When the handle is live and no registered callback throws,
  the first call runs every function in \<open>cancelCallbacks\<close> once, in the order of the
  array (the order of registration, since registration appends), and leaves the array
  empty; after the second call the fired callbacks are still exactly those.
\<close>

theorem C5_cancel_idempotent:
  "cancel r' (snd (cancel r s)) = (None, snd (cancel r s)) \<and>
   ((\<forall>f \<in> set (cancelCallbacks s). no_throw f) \<and> \<not> CANCELED s \<longrightarrow>
      fst (cancel r s) = None \<and>
      fired (trace (snd (cancel r s))) = fired (trace s) @ callback_ids (cancelCallbacks s) \<and>
      cancelCallbacks (snd (cancel r s)) = [] \<and>
      fired (trace (snd (cancel r' (snd (cancel r s))))) =
        fired (trace s) @ callback_ids (cancelCallbacks s))"
proof -
  have i: "cancel r' (snd (cancel r s)) = (None, snd (cancel r s))"
    by (rule cancel_when_CANCELED) (rule cancel_sets_CANCELED)
  show ?thesis
    using i cancel_no_throw [of s r] by simp
qed

theorem C5_cancel_idempotent_witness:
  "list_all no_throw (cancelCallbacks (build_init\<lparr>cancelCallbacks := [Some (Callback (UserFn 1) Returns), None, Some (Callback (UserFn 2) Returns)]\<rparr>)) \<and>
   \<not> CANCELED (build_init\<lparr>cancelCallbacks := [Some (Callback (UserFn 1) Returns), None, Some (Callback (UserFn 2) Returns)]\<rparr>) \<and>
   fired (trace (snd (cancel JUndefined (build_init\<lparr>cancelCallbacks := [Some (Callback (UserFn 1) Returns), None, Some (Callback (UserFn 2) Returns)]\<rparr>)))) = [UserFn 1, UserFn 2] \<and>
   fired (trace (snd (cancel JNull (snd (cancel JUndefined (build_init\<lparr>cancelCallbacks := [Some (Callback (UserFn 1) Returns), None, Some (Callback (UserFn 2) Returns)]\<rparr>)))))) = [UserFn 1, UserFn 2]"
  using C5_cancel_idempotent [of JNull JUndefined
      "build_init\<lparr>cancelCallbacks := [Some (Callback (UserFn 1) Returns), None, Some (Callback (UserFn 2) Returns)]\<rparr>"]
  by (simp add: build_init_def)

lemma addCancelCallback_when_CANCELED:
  "CANCELED s \<Longrightarrow> addCancelCallback (Some (Callback i Returns)) s = (None, emit (Fired i) s)"
  by (simp add: addCancelCallback_def)

lemma returns_normally_no_throw: "returns_normally f \<Longrightarrow> no_throw f"
  by (cases f rule: returns_normally.cases) simp_all

lemma run_hops_CANCELED:
  assumes "\<forall>f \<in> set (registered ops). returns_normally f" and "CANCELED s"
  shows "run_hops ops s = (None, s\<lparr>trace := trace s @ map Fired (callback_ids (registered ops))\<rparr>)"
  using assms
proof (induction ops arbitrary: s)
  case Nil
  show ?case by simp
next
  case (Cons x xs)
  show ?case
  proof (cases x)
    case (AddCancelCallback f)
    with Cons.prems obtain i where f: "f = Some (Callback i Returns)"
      by (cases f rule: returns_normally.cases) auto
    have "run_hops (x # xs) s = run_hops xs (emit (Fired i) s)"
      using Cons.prems(2) by (simp add: AddCancelCallback f addCancelCallback_def)
    also have "\<dots> = (None, (emit (Fired i) s)\<lparr>trace := trace (emit (Fired i) s) @ map Fired (callback_ids (registered xs))\<rparr>)"
      using Cons.prems by (intro Cons.IH) (simp_all add: AddCancelCallback emit_def)
    finally show ?thesis by (simp add: AddCancelCallback f emit_def)
  next
    case (Cancel r)
    have "run_hops (x # xs) s = run_hops xs s"
      using Cons.prems(2) by (simp add: Cancel cancel_def)
    with Cons show ?thesis by (simp add: Cancel)
  qed
qed

lemma callback_ids_single: "callback_ids [f] @ callback_ids fs = callback_ids (f # fs)"
  by (cases "f # fs" rule: callback_ids.cases) simp_all

lemma run_hops_live:
  assumes "\<forall>f \<in> set (registered ops). returns_normally f"
    and "\<forall>f \<in> set (cancelCallbacks s). no_throw f" and "\<not> CANCELED s"
  shows "fst (run_hops ops s) = None \<and>
    (if cancels ops
     then CANCELED (snd (run_hops ops s)) \<and> cancelCallbacks (snd (run_hops ops s)) = [] \<and>
          fired (trace (snd (run_hops ops s))) =
            fired (trace s) @ callback_ids (cancelCallbacks s) @ callback_ids (registered ops)
     else \<not> CANCELED (snd (run_hops ops s)) \<and>
          cancelCallbacks (snd (run_hops ops s)) = cancelCallbacks s @ registered ops \<and>
          fired (trace (snd (run_hops ops s))) = fired (trace s))"
  using assms
proof (induction ops arbitrary: s)
  case Nil
  then show ?case by simp
next
  case (Cons x xs)
  show ?case
  proof (cases x)
    case (AddCancelCallback f)
    let ?s = "s\<lparr>cancelCallbacks := cancelCallbacks s @ [f]\<rparr>"
    have step: "run_hops (x # xs) s = run_hops xs ?s"
      using Cons.prems(3) by (simp add: AddCancelCallback addCancelCallback_def)
    have f: "returns_normally f" using Cons.prems(1) by (simp add: AddCancelCallback)
    have "\<forall>g \<in> set (cancelCallbacks ?s). no_throw g"
      using Cons.prems(2) f by (auto dest: returns_normally_no_throw)
    from Cons.IH [OF _ this] Cons.prems
    show ?thesis
      unfolding step by (simp add: AddCancelCallback callback_ids_append callback_ids_single)
  next
    case (Cancel r)
    obtain s' where s': "cancel r s = (None, s')"
      using cancel_no_throw(1) [OF Cons.prems(2,3), of r] by (cases "cancel r s") simp
    have c: "CANCELED s'" using cancel_sets_CANCELED [of r s] s' by simp
    have t: "fired (trace s') = fired (trace s) @ callback_ids (cancelCallbacks s)"
      and l: "cancelCallbacks s' = []"
      using cancel_no_throw(2,3) [OF Cons.prems(2,3), of r] s' by simp_all
    have "run_hops (x # xs) s = run_hops xs s'"
      by (simp add: Cancel s')
    also have "\<dots> = (None, s'\<lparr>trace := trace s' @ map Fired (callback_ids (registered xs))\<rparr>)"
      using Cons.prems(1) c by (intro run_hops_CANCELED) (simp_all add: Cancel)
    finally show ?thesis
      using c t l by (simp add: Cancel fired_append fired_map_Fired)
  qed
qed


text \<open>
  Claim C10. On a handle that is already canceled, \<open>addCancelCallback\<close> calls the function
  at once, during the registration call itself, and does not store it. Hence for any
  sequence of registrations and cancellations on a fresh handle that cancels at least once,
  with every registered value a function that returns, the callbacks fired are exactly
  the registered ones, each once and in registration order, whether the registration came
  before or after the cancellation.
\<close>

theorem C10_late_registration:
  "(CANCELED s \<longrightarrow>
      addCancelCallback (Some (Callback i Returns)) s = (None, emit (Fired i) s)) \<and>
   ((\<forall>f \<in> set (registered ops). returns_normally f) \<and> cancels ops \<longrightarrow>
      fst (run_hops ops build_init) = None \<and>
      fired (trace (snd (run_hops ops build_init))) = callback_ids (registered ops))"
proof -
  have "\<not> CANCELED build_init" "cancelCallbacks build_init = []" "trace build_init = []"
    by (simp_all add: build_init_def)
  then show ?thesis
    using run_hops_live [of ops build_init] addCancelCallback_when_CANCELED [of s i]
    by simp
qed

theorem C10_late_registration_witness:
  "CANCELED (build_init\<lparr>CANCELED := True\<rparr>) \<and>
   addCancelCallback (Some (Callback (UserFn 7) Returns)) (build_init\<lparr>CANCELED := True\<rparr>) =
     (None, emit (Fired (UserFn 7)) (build_init\<lparr>CANCELED := True\<rparr>)) \<and>
   list_all returns_normally (registered [AddCancelCallback (Some (Callback (UserFn 1) Returns)),
        Cancel JUndefined, AddCancelCallback (Some (Callback (UserFn 2) Returns)), Cancel JUndefined]) \<and>
   cancels [AddCancelCallback (Some (Callback (UserFn 1) Returns)), Cancel JUndefined,
        AddCancelCallback (Some (Callback (UserFn 2) Returns)), Cancel JUndefined] \<and>
   fired (trace (snd (run_hops [AddCancelCallback (Some (Callback (UserFn 1) Returns)), Cancel JUndefined,
        AddCancelCallback (Some (Callback (UserFn 2) Returns)), Cancel JUndefined] build_init))) = [UserFn 1, UserFn 2]"
  using C10_late_registration [of "build_init\<lparr>CANCELED := True\<rparr>" "UserFn 7"
      "[AddCancelCallback (Some (Callback (UserFn 1) Returns)), Cancel JUndefined,
        AddCancelCallback (Some (Callback (UserFn 2) Returns)), Cancel JUndefined]"]
  by (simp add: build_init_def)

section \<open>Properties of the file watcher\<close>

lemma sourceFiles_loop_small:
  "n \<le> 100 \<Longrightarrow>
   sourceFiles_loop n outfiles srcfiles acc = Inr (acc @ filter (\<lambda>fn. \<not> js_in fn outfiles) srcfiles)"
  by (induction srcfiles arbitrary: acc) simp_all

lemma sourceFiles_loop_large:
  "n > 100 \<Longrightarrow>
   sourceFiles_loop n outfiles srcfiles acc =
     (if \<exists>fn \<in> set srcfiles. \<not> js_in fn outfiles
      then Inl (TypeError ''fn.contains is not a function'') else Inr acc)"
  by (induction srcfiles arbitrary: acc) simp_all

lemma fswatcherMap_log_outfiles:
  "fswatcherMap (foldl (\<lambda>s' fn. emit (FileModificationLogAppend fn) s') s outfiles) = fswatcherMap s"
  by (induction outfiles arbitrary: s) (simp_all add: emit_def)

lemma refreshFiles_small:
  assumes "inputs m = Some srcfiles" and "outputs m = Some outfiles" and "length srcfiles \<le> 100"
  shows "fst (refreshFiles projectID (Inr m) s) = None"
    and "fswatcherMap (snd (refreshFiles projectID (Inr m) s)) projectID =
           Some (filter (\<lambda>fn. \<not> js_in fn outfiles) srcfiles)"
  using assms by (simp_all add: refreshFiles_def sourceFiles_loop_small emit_def Let_def)

text \<open>
  Claim C1. The claim does not hold of the code for metadata with more than 100 inputs.
  There the loop evaluates \<open>fn.contains(...)\<close> for the first input that is not an output;
  a string has no such method, so \<open>refreshFiles\<close> throws a TypeError, \<open>setFiles\<close> is not
  reached and the watcher keeps the file list it had.
\<close>

theorem C1_refreshFiles_large_throws:
  assumes "inputs m = Some srcfiles" and "outputs m = Some outfiles"
    and "length srcfiles > 100" and "fn \<in> set srcfiles" and "\<not> js_in fn outfiles"
  shows "fst (refreshFiles projectID (Inr m) s) = Some (TypeError ''fn.contains is not a function'') \<and>
         fswatcherMap (snd (refreshFiles projectID (Inr m) s)) = fswatcherMap s"
proof -
  have "sourceFiles_loop (length srcfiles) outfiles srcfiles [] =
          Inl (TypeError ''fn.contains is not a function'')"
    using assms(3-5) by (auto simp: sourceFiles_loop_large)
  then show ?thesis
    using assms(1,2) by (simp add: refreshFiles_def fswatcherMap_log_outfiles)
qed

lemma meta101_inputs:
  "inputs meta101 =
     Some (''src/m.ts'' # map (\<lambda>i. ''src/m'' @ replicate i CHR ''x'' @ ''.ts'') [1..<101])"
  by (simp add: meta101_def upt_conv_Cons)

theorem C1_refreshFiles_large_throws_witness:
  "length (the (inputs meta101)) = 101 \<and> \<not> js_in ''src/m.ts'' [''out.js''] \<and>
   fst (refreshFiles ''p'' (Inr meta101) build_init) = Some (TypeError ''fn.contains is not a function'') \<and>
   fswatcherMap (snd (refreshFiles ''p'' (Inr meta101) build_init)) = fswatcherMap build_init"
proof -
  have o: "outputs meta101 = Some [''out.js'']" by (simp add: meta101_def)
  have l: "length (the (inputs meta101)) = 101" by (simp add: meta101_def)
  have j: "\<not> js_in ''src/m.ts'' [''out.js'']" by (simp add: js_in_def Object_prototype_def)
  show ?thesis
    using C1_refreshFiles_large_throws [OF meta101_inputs o _ _ j, of "''p''" build_init] l j
    by (simp add: meta101_inputs)
qed

section \<open>Properties of the type-check process registry\<close>






section \<open>Properties of the project identity\<close>

lemma toString36_nonempty: "toString36 n \<noteq> []"
  by (subst toString36.simps) simp

lemma base36_loop_be32_bytes:
  "base36_loop n (be32_bytes w @ buf) =
     (case base36_loop n buf of
        Inl e \<Rightarrow> Inl e
      | Inr s \<Rightarrow> Inr (toString36 (readUInt32LE (ucast (drop_bit 24 w)) (ucast (drop_bit 16 w))
                                    (ucast (drop_bit 8 w)) (ucast w)) @ s))"
  by (simp add: be32_bytes_def)

lemma base36EncodeBuf_sha1: "\<exists>s. s \<noteq> [] \<and> base36EncodeBuf (sha1 bs) = Inr s"
proof -
  obtain h0 h1 h2 h3 h4 where
    "foldl sha1_block (0x67452301, 0xEFCDAB89, 0x98BADCFE, 0x10325476, 0xC3D2E1F0)
       (chunks 64 (sha1_pad bs)) = (h0, h1, h2, h3, h4)"
    using prod_cases5 by blast
  then have
    "sha1 bs = be32_bytes h0 @ be32_bytes h1 @ be32_bytes h2 @ be32_bytes h3 @ be32_bytes h4 @ []"
    by (simp add: sha1_def)
  then show ?thesis
    unfolding base36EncodeBuf_def
    by (simp only: base36_loop_be32_bytes) (simp add: toString36_nonempty)
qed

lemma projectIDForConfig_fresh:
  assumes "PROJECT_ID cfg = None"
  shows "\<exists>projectID. projectID \<noteq> [] \<and>
           base36EncodeBuf (sha1 (utf8 (projectKey delimiter cfg))) = Inr projectID \<and>
           projectIDForConfig delimiter cfg = Inr (projectID, cfg\<lparr>PROJECT_ID := Some projectID\<rparr>)"
proof -
  obtain s where "s \<noteq> []" "base36EncodeBuf (sha1 (utf8 (projectKey delimiter cfg))) = Inr s"
    using base36EncodeBuf_sha1 by blast
  then show ?thesis
    using assms by (simp add: projectIDForConfig_def)
qed

lemma projectIDForConfig_memoized:
  "projectID \<noteq> [] \<Longrightarrow> PROJECT_ID cfg = Some projectID \<Longrightarrow>
   projectIDForConfig delimiter cfg = Inr (projectID, cfg)"
  by (simp add: projectIDForConfig_def)

text \<open>
  Claim C4, as amended. On configurations that carry no memoized id, the identity is a
  function of the key that \<open>projectIDForConfig\<close> joins from \<open>cwd\<close>, \<open>outfile\<close> and the entry
  points: equal triples give equal keys, and equal keys give the same identity string,
  which is then memoized on the object and returned by every later call. (The converse
  fails: different triples can have the same key.)
\<close>

theorem C4_identity_function_of_key:
  "(cwd c1 = cwd c2 \<and> outfile c1 = outfile c2 \<and> entryPoints c1 = entryPoints c2 \<longrightarrow>
      projectKey delimiter c1 = projectKey delimiter c2) \<and>
   (PROJECT_ID c1 = None \<and> PROJECT_ID c2 = None \<and>
    projectKey delimiter c1 = projectKey delimiter c2 \<longrightarrow>
      (\<exists>projectID. projectID \<noteq> [] \<and>
         projectIDForConfig delimiter c1 = Inr (projectID, c1\<lparr>PROJECT_ID := Some projectID\<rparr>) \<and>
         projectIDForConfig delimiter c2 = Inr (projectID, c2\<lparr>PROJECT_ID := Some projectID\<rparr>) \<and>
         projectIDForConfig delimiter (c1\<lparr>PROJECT_ID := Some projectID\<rparr>) =
           Inr (projectID, c1\<lparr>PROJECT_ID := Some projectID\<rparr>)))"
proof -
  have a: "cwd c1 = cwd c2 \<and> outfile c1 = outfile c2 \<and> entryPoints c1 = entryPoints c2 \<longrightarrow>
      projectKey delimiter c1 = projectKey delimiter c2"
    by (simp add: projectKey_def)
  have b: "\<exists>projectID. projectID \<noteq> [] \<and>
         projectIDForConfig delimiter c1 = Inr (projectID, c1\<lparr>PROJECT_ID := Some projectID\<rparr>) \<and>
         projectIDForConfig delimiter c2 = Inr (projectID, c2\<lparr>PROJECT_ID := Some projectID\<rparr>) \<and>
         projectIDForConfig delimiter (c1\<lparr>PROJECT_ID := Some projectID\<rparr>) =
           Inr (projectID, c1\<lparr>PROJECT_ID := Some projectID\<rparr>)"
    if h: "PROJECT_ID c1 = None" "PROJECT_ID c2 = None"
      "projectKey delimiter c1 = projectKey delimiter c2"
  proof -
    obtain i1 where i1: "i1 \<noteq> []"
      "base36EncodeBuf (sha1 (utf8 (projectKey delimiter c1))) = Inr i1"
      "projectIDForConfig delimiter c1 = Inr (i1, c1\<lparr>PROJECT_ID := Some i1\<rparr>)"
      using projectIDForConfig_fresh [OF h(1)] by blast
    obtain i2 where i2:
      "base36EncodeBuf (sha1 (utf8 (projectKey delimiter c2))) = Inr i2"
      "projectIDForConfig delimiter c2 = Inr (i2, c2\<lparr>PROJECT_ID := Some i2\<rparr>)"
      using projectIDForConfig_fresh [OF h(2)] by blast
    have "i2 = i1" using i1(2) i2(1) h(3) by simp
    moreover have "projectIDForConfig delimiter (c1\<lparr>PROJECT_ID := Some i1\<rparr>) =
        Inr (i1, c1\<lparr>PROJECT_ID := Some i1\<rparr>)"
      using i1(1) by (intro projectIDForConfig_memoized) simp_all
    ultimately show ?thesis using i1 i2 by blast
  qed
  show ?thesis using a b by blast
qed

theorem C4_identity_function_of_key_witness:
  "cwd example_config = cwd (example_config\<lparr>watch := JBool True\<rparr>) \<and>
   outfile example_config = outfile (example_config\<lparr>watch := JBool True\<rparr>) \<and>
   entryPoints example_config = entryPoints (example_config\<lparr>watch := JBool True\<rparr>) \<and>
   PROJECT_ID example_config = None \<and> PROJECT_ID (example_config\<lparr>watch := JBool True\<rparr>) = None \<and>
   projectKey '':'' example_config = ''/proj:out.js:a.ts'' \<and>
   projectKey '':'' (example_config\<lparr>watch := JBool True\<rparr>) = ''/proj:out.js:a.ts'' \<and>
   \<not> isl (projectIDForConfig '':'' example_config) \<and>
   map_sum id fst (projectIDForConfig '':'' example_config) =
     map_sum id fst (projectIDForConfig '':'' (example_config\<lparr>watch := JBool True\<rparr>))"
proof -
  have k: "projectKey '':'' example_config = ''/proj:out.js:a.ts''"
    "projectKey '':'' (example_config\<lparr>watch := JBool True\<rparr>) = ''/proj:out.js:a.ts''"
    by (simp_all add: projectKey_def example_config_def)
  have n: "PROJECT_ID example_config = None"
    "PROJECT_ID (example_config\<lparr>watch := JBool True\<rparr>) = None"
    by (simp_all add: example_config_def)
  from C4_identity_function_of_key [of example_config "example_config\<lparr>watch := JBool True\<rparr>" "'':''"]
    k n
  obtain i where "projectIDForConfig '':'' example_config =
      Inr (i, example_config\<lparr>PROJECT_ID := Some i\<rparr>)"
    "projectIDForConfig '':'' (example_config\<lparr>watch := JBool True\<rparr>) =
      Inr (i, example_config\<lparr>watch := JBool True, PROJECT_ID := Some i\<rparr>)"
    by auto
  then show ?thesis using k n by simp
qed

text \<open>
  Claim C4 as stated fails. With the POSIX delimiter \<open>:\<close>, the entry points
  \<open>["a.ts", "b.ts"]\<close> and the single entry point \<open>"a.ts:b.ts"\<close> (same working directory
  and output file) are different triples with the same key \<open>/proj:out.js:a.ts:b.ts\<close>, hence
  the same identity.
\<close>

theorem C4_identity_collision:
  "(cwd (example_config\<lparr>entryPoints := Arr [''a.ts'', ''b.ts'']\<rparr>),
    outfile (example_config\<lparr>entryPoints := Arr [''a.ts'', ''b.ts'']\<rparr>),
    entryPoints (example_config\<lparr>entryPoints := Arr [''a.ts'', ''b.ts'']\<rparr>)) \<noteq>
   (cwd (example_config\<lparr>entryPoints := Arr [''a.ts:b.ts'']\<rparr>),
    outfile (example_config\<lparr>entryPoints := Arr [''a.ts:b.ts'']\<rparr>),
    entryPoints (example_config\<lparr>entryPoints := Arr [''a.ts:b.ts'']\<rparr>)) \<and>
   \<not> isl (projectIDForConfig '':'' (example_config\<lparr>entryPoints := Arr [''a.ts'', ''b.ts'']\<rparr>)) \<and>
   map_sum id fst (projectIDForConfig '':'' (example_config\<lparr>entryPoints := Arr [''a.ts'', ''b.ts'']\<rparr>)) =
   map_sum id fst (projectIDForConfig '':'' (example_config\<lparr>entryPoints := Arr [''a.ts:b.ts'']\<rparr>))"
proof -
  let ?A = "example_config\<lparr>entryPoints := Arr [''a.ts'', ''b.ts'']\<rparr>"
  let ?B = "example_config\<lparr>entryPoints := Arr [''a.ts:b.ts'']\<rparr>"
  have k: "projectKey '':'' ?A = projectKey '':'' ?B"
    by (simp add: projectKey_def example_config_def)
  have n: "PROJECT_ID ?A = None" "PROJECT_ID ?B = None"
    by (simp_all add: example_config_def)
  obtain a where a: "base36EncodeBuf (sha1 (utf8 (projectKey '':'' ?A))) = Inr a"
    "projectIDForConfig '':'' ?A = Inr (a, ?A\<lparr>PROJECT_ID := Some a\<rparr>)"
    using projectIDForConfig_fresh [OF n(1)] by blast
  obtain b where b: "base36EncodeBuf (sha1 (utf8 (projectKey '':'' ?B))) = Inr b"
    "projectIDForConfig '':'' ?B = Inr (b, ?B\<lparr>PROJECT_ID := Some b\<rparr>)"
    using projectIDForConfig_fresh [OF n(2)] by blast
  have "a = b" using a(1) b(1) k by simp
  then show ?thesis using a(2) b(2) by simp
qed

section \<open>Properties of the config normalisation\<close>

lemma foldl_filter_exclude:
  "foldl (\<lambda>fs pat. filter (\<lambda>fn. \<not> globmatch pat fn) fs) files pats =
   filter (\<lambda>fn. \<forall>pat \<in> set pats. \<not> globmatch pat fn) files"
  by (induction pats arbitrary: files) (simp_all add: conj_commute)

lemma guessEntryPoints_cases:
  "guessEntryPoints glob globmatch None = []"
  "ts_files t = Some fs \<Longrightarrow> guessEntryPoints glob globmatch (Some t) = fs"
  "ts_files t = None \<Longrightarrow> ts_include t = Some pats \<Longrightarrow>
     guessEntryPoints glob globmatch (Some t) =
       take 1 (filter (\<lambda>fn. \<forall>pat \<in> set (case ts_exclude t of None \<Rightarrow> [] | Some xs \<Rightarrow> xs).
                               \<not> globmatch pat fn)
                 (concat (map glob pats)))"
  "ts_files t = None \<Longrightarrow> ts_include t = None \<Longrightarrow> guessEntryPoints glob globmatch (Some t) = []"
  by (simp_all add: guessEntryPoints_def foldl_filter_exclude Let_def)

lemma merge_entry_valid:
  assumes "\<forall>s. entryPoints cfg \<noteq> Str s"
  shows "merge_entry cfg = Inr (cfg\<lparr>entryPoints := Arr (listed_entryPoints cfg), entry := Unset\<rparr>)"
proof (cases "entryPoints cfg")
  case Unset
  then show ?thesis
    by (cases "entry cfg") (simp_all add: merge_entry_def listed_entryPoints_def)
next
  case (Str s)
  with assms show ?thesis by simp
next
  case (Arr xs)
  then show ?thesis
    by (cases "entry cfg") (simp_all add: merge_entry_def listed_entryPoints_def)
qed

lemma processConfig_after_infer:
  assumes "merge_entry cfg = Inr cfg1"
    and "infer_entryPoints glob globmatch tsconfig cfg1 = Inr cfg2"
    and "PROJECT_ID cfg2 = None"
  shows "\<exists>cfg'. processConfig delimiter log_debug glob globmatch tsconfig cfg = Inr cfg' \<and>
           entryPoints cfg' = entryPoints cfg2"
proof (cases log_debug)
  case False
  with assms show ?thesis by (simp add: processConfig_def)
next
  case True
  let ?c = "cfg2\<lparr>sourcemap := normalize_sourcemap (sourcemap cfg2)\<rparr>"
  have "PROJECT_ID ?c = None" using assms(3) by simp
  from projectIDForConfig_fresh [OF this, of delimiter]
  obtain i where "projectIDForConfig delimiter ?c = Inr (i, ?c\<lparr>PROJECT_ID := Some i\<rparr>)"
    by blast
  with True assms show ?thesis by (simp add: processConfig_def)
qed

text \<open>
  Claim C7. For a configuration whose \<open>entryPoints\<close>, if set, is an array, and whose
  \<open>entry\<close> is unset, a string or an array: when it lists entry points itself, the
  normalised entry points are exactly these, in order. When it lists none, they are
  inferred: from the tsconfig's \<open>files\<close> when it has that property (the whole list), else
  from its \<open>include\<close> patterns, expanded in order, without the paths matching an \<open>exclude\<close>
  pattern, taking the first path only. When the inferred list is empty too,
  \<open>processConfig\<close> throws the error "config.entryPoints is empty or not set". So whenever
  \<open>processConfig\<close> returns, the entry points are a non-empty list of strings.
\<close>

theorem C7_entry_points:
  assumes "\<forall>s. entryPoints cfg \<noteq> Str s" and "PROJECT_ID cfg = None"
  shows
    "(listed_entryPoints cfg \<noteq> [] \<longrightarrow>
        (\<exists>cfg'. processConfig delimiter log_debug glob globmatch tsconfig cfg = Inr cfg' \<and>
                entryPoints cfg' = Arr (listed_entryPoints cfg))) \<and>
     (listed_entryPoints cfg = [] \<and> guessEntryPoints glob globmatch tsconfig \<noteq> [] \<longrightarrow>
        (\<exists>cfg'. processConfig delimiter log_debug glob globmatch tsconfig cfg = Inr cfg' \<and>
                entryPoints cfg' = Arr (guessEntryPoints glob globmatch tsconfig))) \<and>
     (listed_entryPoints cfg = [] \<and> guessEntryPoints glob globmatch tsconfig = [] \<longrightarrow>
        processConfig delimiter log_debug glob globmatch tsconfig cfg =
          Inl (Error (''config.entryPoints is empty or not set'' @
                      (if tsconfig \<noteq> None then '' (could not guess from tsconfig.json)'' else [])))) \<and>
     (\<forall>cfg'. processConfig delimiter log_debug glob globmatch tsconfig cfg = Inr cfg' \<longrightarrow>
        (\<exists>ys. entryPoints cfg' = Arr ys \<and> ys \<noteq> [])) \<and>
     guessEntryPoints glob globmatch None = [] \<and>
     (\<forall>t fs. ts_files t = Some fs \<longrightarrow> guessEntryPoints glob globmatch (Some t) = fs) \<and>
     (\<forall>t pats. ts_files t = None \<and> ts_include t = Some pats \<longrightarrow>
        guessEntryPoints glob globmatch (Some t) =
          take 1 (filter (\<lambda>fn. \<forall>pat \<in> set (case ts_exclude t of None \<Rightarrow> [] | Some xs \<Rightarrow> xs).
                                  \<not> globmatch pat fn)
                    (concat (map glob pats)))) \<and>
     (\<forall>t. ts_files t = None \<and> ts_include t = None \<longrightarrow>
        guessEntryPoints glob globmatch (Some t) = [])"
proof -
  let ?c1 = "cfg\<lparr>entryPoints := Arr (listed_entryPoints cfg), entry := Unset\<rparr>"
  let ?g = "guessEntryPoints glob globmatch tsconfig"
  have m: "merge_entry cfg = Inr ?c1" using assms(1) by (rule merge_entry_valid)
  have a: "\<exists>cfg'. processConfig delimiter log_debug glob globmatch tsconfig cfg = Inr cfg' \<and>
                entryPoints cfg' = Arr (listed_entryPoints cfg)"
    if l: "listed_entryPoints cfg \<noteq> []"
  proof -
    have "infer_entryPoints glob globmatch tsconfig ?c1 = Inr ?c1"
      using l by (simp add: infer_entryPoints_def)
    from processConfig_after_infer [OF m this] assms(2) show ?thesis by simp
  qed
  have b: "\<exists>cfg'. processConfig delimiter log_debug glob globmatch tsconfig cfg = Inr cfg' \<and>
                entryPoints cfg' = Arr ?g"
    if l: "listed_entryPoints cfg = []" "?g \<noteq> []"
  proof -
    have "infer_entryPoints glob globmatch tsconfig ?c1 = Inr (?c1\<lparr>entryPoints := Arr ?g\<rparr>)"
      using l by (simp add: infer_entryPoints_def Let_def)
    from processConfig_after_infer [OF m this] assms(2) show ?thesis by simp
  qed
  have c: "processConfig delimiter log_debug glob globmatch tsconfig cfg =
          Inl (Error (''config.entryPoints is empty or not set'' @
                      (if tsconfig \<noteq> None then '' (could not guess from tsconfig.json)'' else [])))"
    if l: "listed_entryPoints cfg = []" "?g = []"
    using l m by (simp add: processConfig_def infer_entryPoints_def Let_def)
  have d: "\<exists>ys. entryPoints cfg' = Arr ys \<and> ys \<noteq> []"
    if r: "processConfig delimiter log_debug glob globmatch tsconfig cfg = Inr cfg'" for cfg'
  proof (cases "listed_entryPoints cfg = []")
    case False
    with a r show ?thesis by auto
  next
    case True
    show ?thesis
    proof (cases "?g = []")
      case True
      with c \<open>listed_entryPoints cfg = []\<close> r show ?thesis by simp
    next
      case False
      with b \<open>listed_entryPoints cfg = []\<close> r show ?thesis by auto
    qed
  qed
  show ?thesis
    using a b c d guessEntryPoints_cases [where glob = glob and globmatch = globmatch] by blast
qed

theorem C7_entry_points_witness:
  "entryPoints (example_config\<lparr>entryPoints := Unset, entry := Str ''main.ts''\<rparr>) = Unset \<and>
   PROJECT_ID (example_config\<lparr>entryPoints := Unset, entry := Str ''main.ts''\<rparr>) = None \<and>
   listed_entryPoints (example_config\<lparr>entryPoints := Unset, entry := Str ''main.ts''\<rparr>) =
     [''main.ts''] \<and>
   map_sum id entryPoints
     (processConfig '':'' True example_glob example_globmatch None
        (example_config\<lparr>entryPoints := Unset, entry := Str ''main.ts''\<rparr>)) =
     Inr (Arr [''main.ts'']) \<and>
   listed_entryPoints (example_config\<lparr>entryPoints := Unset\<rparr>) = [] \<and>
   guessEntryPoints example_glob example_globmatch (Some example_tsconfig) = [''src/a.ts''] \<and>
   map_sum id entryPoints
     (processConfig '':'' False example_glob example_globmatch (Some example_tsconfig)
        (example_config\<lparr>entryPoints := Unset\<rparr>)) =
     Inr (Arr [''src/a.ts'']) \<and>
   guessEntryPoints example_glob example_globmatch None = [] \<and>
   processConfig '':'' False example_glob example_globmatch None
        (example_config\<lparr>entryPoints := Unset\<rparr>) =
     Inl (Error ''config.entryPoints is empty or not set'')"
proof -
  let ?c1 = "example_config\<lparr>entryPoints := Unset, entry := Str ''main.ts''\<rparr>"
  let ?c2 = "example_config\<lparr>entryPoints := Unset\<rparr>"
  have v1: "\<forall>s. entryPoints ?c1 \<noteq> Str s" and n1: "PROJECT_ID ?c1 = None"
    and l1: "listed_entryPoints ?c1 = [''main.ts'']"
    by (simp_all add: example_config_def listed_entryPoints_def)
  have v2: "\<forall>s. entryPoints ?c2 \<noteq> Str s" and n2: "PROJECT_ID ?c2 = None"
    and l2: "listed_entryPoints ?c2 = []"
    by (simp_all add: example_config_def listed_entryPoints_def)
  have g: "guessEntryPoints example_glob example_globmatch (Some example_tsconfig) = [''src/a.ts'']"
    by (simp add: guessEntryPoints_def example_tsconfig_def example_glob_def example_globmatch_def)
  have g0: "guessEntryPoints example_glob example_globmatch None = []"
    by (simp add: guessEntryPoints_def)
  have "map_sum id entryPoints (processConfig '':'' True example_glob example_globmatch None ?c1) =
          Inr (Arr [''main.ts''])"
    using C7_entry_points [OF v1 n1, of "'':''" True example_glob example_globmatch None] l1
    by auto
  moreover
  have "map_sum id entryPoints
          (processConfig '':'' False example_glob example_globmatch (Some example_tsconfig) ?c2) =
          Inr (Arr [''src/a.ts''])"
    using C7_entry_points [OF v2 n2, of "'':''" False example_glob example_globmatch
        "Some example_tsconfig"] l2 g
    by auto
  moreover
  have "processConfig '':'' False example_glob example_globmatch None ?c2 =
          Inl (Error ''config.entryPoints is empty or not set'')"
    using C7_entry_points [OF v2 n2, of "'':''" False example_glob example_globmatch None] l2 g0
    by simp
  ultimately show ?thesis
    using l1 l2 g g0 n1 by (simp add: example_config_def)
qed

section \<open>Properties of the build cycle\<close>

lemma no_build_step_refl: "no_build_step s s"
  by (simp add: no_build_step_def)

lemma no_build_step_trans:
  assumes "no_build_step s s'" and "no_build_step s' s''"
  shows "no_build_step s s''"
proof -
  from assms obtain es es' where
    "trace s' = trace s @ es" "count_list es EsbuildBuild = 0"
    "trace s'' = trace s' @ es'" "count_list es' EsbuildBuild = 0"
    unfolding no_build_step_def by blast
  then have "trace s'' = trace s @ (es @ es') \<and> count_list (es @ es') EsbuildBuild = 0"
    by simp
  then have "\<exists>es. trace s'' = trace s @ es \<and> count_list es EsbuildBuild = 0" by blast
  with assms show ?thesis by (simp add: no_build_step_def)
qed

lemma no_build_step_emit: "e \<noteq> EsbuildBuild \<Longrightarrow> no_build_step s (emit e s)"
  by (simp add: no_build_step_def emit_def)

lemma no_build_step_count:
  "no_build_step s s' \<Longrightarrow> count_list (trace s') EsbuildBuild = count_list (trace s) EsbuildBuild"
  by (auto simp: no_build_step_def)

lemma no_build_step_same:
  "trace s' = trace s \<Longrightarrow> CANCELED s' = CANCELED s \<Longrightarrow> ctx_rebuild s' = ctx_rebuild s \<Longrightarrow>
   no_build_step s s'"
  by (simp add: no_build_step_def)

lemma call_cb_step: "no_build_step s (snd (call_cb f s))"
  by (cases "(f, s)" rule: call_cb.cases) (simp_all add: no_build_step_emit no_build_step_refl)

lemma run_callbacks_step: "no_build_step s (snd (run_callbacks fs s))"
proof (induction fs s rule: run_callbacks.induct)
  case (1 s)
  show ?case by (simp add: no_build_step_refl)
next
  case (2 fs s)
  then show ?case by simp
next
  case (3 f fs s)
  obtain e s' where c: "call_cb (Some f) s = (e, s')" by fastforce
  have s': "no_build_step s s'" using call_cb_step [of s "Some f"] c by simp
  show ?case
  proof (cases e)
    case None
    with 3 c have "no_build_step s' (snd (run_callbacks fs s'))" by simp
    with s' have "no_build_step s (snd (run_callbacks fs s'))" by (rule no_build_step_trans)
    with c None show ?thesis by simp
  next
    case (Some a)
    with c s' show ?thesis by simp
  qed
qed

lemma cancel_step: "no_build_step s (snd (cancel r s))"
proof (cases "CANCELED s")
  case True
  then show ?thesis by (simp add: cancel_def no_build_step_refl)
next
  case False
  let ?s2 = "(emit (Log Debug ''build cancelled'') s)\<lparr>CANCELED := True\<rparr>"
  have a: "no_build_step s ?s2" by (simp add: no_build_step_def emit_def)
  obtain e s3 where r: "run_callbacks (cancelCallbacks ?s2) ?s2 = (e, s3)" by fastforce
  have b: "no_build_step ?s2 s3" using run_callbacks_step [of ?s2 "cancelCallbacks ?s2"] r by simp
  have c: "no_build_step s3 (snd (cancel r s))"
    using False r
    by (cases e)
       (auto simp: cancel_def Let_def resolver_reject_def resolver_resolve_def settle_def
          intro!: no_build_step_same no_build_step_refl)
  show ?thesis by (rule no_build_step_trans [OF no_build_step_trans [OF a b] c])
qed

lemma addCancelCallback_step: "no_build_step s (snd (addCancelCallback f s))"
  using call_cb_step [of s f]
  by (auto simp: addCancelCallback_def intro!: no_build_step_same)

lemma apply_hop_step: "no_build_step s (snd (apply_hop x s))"
  by (cases x) (simp_all add: cancel_step addCancelCallback_step)

lemma run_hops_step: "no_build_step s (snd (run_hops ops s))"
proof (induction ops arbitrary: s)
  case Nil
  show ?case by (simp add: no_build_step_refl)
next
  case (Cons x xs)
  obtain e s' where a: "apply_hop x s = (e, s')" by fastforce
  have s': "no_build_step s s'"
    using apply_hop_step [of s x] a by simp
  show ?case
  proof (cases e)
    case None
    have "no_build_step s (snd (run_hops xs s'))"
      by (rule no_build_step_trans [OF s' Cons.IH])
    with a None show ?thesis by simp
  next
    case (Some err)
    with a s' show ?thesis by simp
  qed
qed

lemma call_hook_step: "no_build_step s (snd (call_hook r s))"
proof (cases r)
  case (HookThrows e)
  then show ?thesis by (simp add: call_hook_def no_build_step_refl)
next
  case (HookReturns v ops)
  then show ?thesis
    using run_hops_step [of s ops]
    by (cases "run_hops ops s") (auto simp: call_hook_def split: option.splits)
qed

lemma logWarnings_step: "no_build_step s (logWarnings ws s)"
  by (simp add: logWarnings_def no_build_step_emit no_build_step_refl)

lemma logErrors_step: "no_build_step s (logErrors es s)"
  by (simp add: logErrors_def no_build_step_emit no_build_step_refl)

lemma setErrorExitCode_step: "no_build_step s (setErrorExitCode s)"
  by (simp add: setErrorExitCode_def no_build_step_def emit_def)

lemma onEnd_inner_step: "no_build_step s (snd (onEnd_inner cfg props d s))"
proof (cases "onEnd cfg")
  case None
  then show ?thesis by (simp add: onEnd_inner_def logErrors_step)
next
  case (Some h)
  let ?s1 = "emit UserOnEndCalled (s\<lparr>isInsideCallToUserOnEnd := True\<rparr>)"
  have a: "no_build_step s ?s1" by (simp add: no_build_step_def emit_def)
  obtain r s2 where c: "call_hook (h props) ?s1 = (r, s2)" by fastforce
  have b: "no_build_step ?s1 s2" using call_hook_step [of ?s1 "h props"] c by simp
  have "no_build_step s2 (snd (onEnd_inner cfg props d s))"
  proof (cases r)
    case (Inl e)
    with Some c show ?thesis
      by (simp add: onEnd_inner_def no_build_step_def emit_def)
  next
    case (Inr v)
    have "no_build_step s2 (s2\<lparr>isInsideCallToUserOnEnd := False\<rparr>)"
      by (simp add: no_build_step_def)
    from no_build_step_trans [OF this logErrors_step]
    show ?thesis using Some c Inr by (simp add: onEnd_inner_def Let_def)
  qed
  with no_build_step_trans [OF a b] show ?thesis by (rule no_build_step_trans)
qed

lemma onEnd_wrapped_step: "no_build_step s (snd (onEnd_wrapped cfg ev props d s))"
proof (cases "truthy (outfileMode cfg) \<and> str_truthy (outfile cfg)")
  case False
  then have "onEnd_wrapped cfg ev props d s = onEnd_inner cfg props d s"
    by (auto simp: onEnd_wrapped_def)
  then show ?thesis by (simp only: onEnd_inner_step)
next
  case True
  let ?s1 = "emit Chmod s"
  let ?s2 = "case chmod_throws ev of
               Some msg \<Rightarrow> setErrorExitCode
                 (emit (Log Err (''configuration error: outfileMode: '' @ msg)) ?s1)
             | None \<Rightarrow> ?s1"
  have a: "no_build_step s ?s1" by (simp add: no_build_step_emit)
  have b: "no_build_step ?s1 ?s2"
  proof (cases "chmod_throws ev")
    case None
    then show ?thesis by (simp add: no_build_step_refl)
  next
    case (Some msg)
    have "no_build_step ?s1
        (setErrorExitCode (emit (Log Err (''configuration error: outfileMode: '' @ msg)) ?s1))"
      by (rule no_build_step_trans [OF no_build_step_emit setErrorExitCode_step]) simp
    with Some show ?thesis by simp
  qed
  have c: "snd (onEnd_wrapped cfg ev props d s) = snd (onEnd_inner cfg props d ?s2)"
    using True by (simp add: onEnd_wrapped_def Let_def)
  have "no_build_step s (snd (onEnd_inner cfg props d ?s2))"
    by (rule no_build_step_trans [OF no_build_step_trans [OF a b] onEnd_inner_step])
  then show ?thesis by (simp only: c)
qed

lemma onBuildSuccess_step: "no_build_step s (snd (onBuildSuccess cfg ev ws s))"
proof -
  let ?s1 = "logWarnings (case ws of None \<Rightarrow> [] | Some w \<Rightarrow> w) s"
  have a: "no_build_step s ?s1" by (rule logWarnings_step)
  have e: "no_build_step ?s1 (snd (onEnd_wrapped cfg ev props d (emit (Log Info m) ?s1)))"
    for props d m
    by (rule no_build_step_trans [OF no_build_step_emit onEnd_wrapped_step]) simp
  have p: "no_build_step ?s1 (emit PatchSourceMap ?s1)" by (simp add: no_build_step_emit)
  have e2: "no_build_step ?s1
      (snd (onEnd_wrapped cfg ev props d (emit (Log Info m) (emit PatchSourceMap ?s1))))"
    for props d m
    by (rule no_build_step_trans [OF p no_build_step_trans [OF no_build_step_emit onEnd_wrapped_step]])
       simp
  have "no_build_step ?s1 (snd (onBuildSuccess cfg ev ws s))"
  proof (cases "str_truthy (outfile cfg)")
    case False
    then show ?thesis using e by (simp add: onBuildSuccess_def Let_def)
  next
    case True
    show ?thesis
    proof (cases "truthy (sourcemap cfg) \<and> sourcemap cfg \<noteq> JStr ''inline''")
      case False
      with True show ?thesis using e by (auto simp: onBuildSuccess_def Let_def)
    next
      case sm: True
      show ?thesis
      proof (cases "patchSourceMap_throws ev")
        case None
        with True sm show ?thesis using e2 by (simp add: onBuildSuccess_def Let_def)
      next
        case (Some x)
        with True sm show ?thesis using p by (simp add: onBuildSuccess_def Let_def)
      qed
    qed
  qed
  with a show ?thesis by (rule no_build_step_trans)
qed

lemma onBuildFail_step: "no_build_step s (snd (onBuildFail cfg ev err b s))"
  unfolding onBuildFail_def Let_def
  by (rule no_build_step_trans [OF logWarnings_step onEnd_wrapped_step])

lemma esbuild_settle_step: "no_build_step s (snd (esbuild_settle cfg ev s))"
  by (cases "esbuild_build ev") (simp_all add: esbuild_settle_def onBuildSuccess_step onBuildFail_step)

section \<open>The outcome of a cycle\<close>

lemma run_hops_safe:
  assumes "\<forall>f \<in> set (registered ops). returns_normally f"
    and "\<forall>f \<in> set (cancelCallbacks s). no_throw f"
  shows "fst (run_hops ops s) = None"
proof (cases "CANCELED s")
  case True
  with assms(1) show ?thesis by (simp add: run_hops_CANCELED)
next
  case False
  with assms show ?thesis using run_hops_live [of ops s] by simp
qed

lemma call_hook_returns:
  assumes "\<forall>f \<in> set (registered ops). returns_normally f"
    and "\<forall>f \<in> set (cancelCallbacks s). no_throw f"
  shows "fst (call_hook (HookReturns v ops) s) = Inr v"
  using run_hops_safe [OF assms]
  by (cases "run_hops ops s") (simp add: call_hook_def)


lemma onEnd_inner_result:
  assumes "onEnd cfg = Some h" and "h props = HookReturns v ops"
    and "\<forall>f \<in> set (registered ops). returns_normally f"
    and "\<forall>f \<in> set (cancelCallbacks s). no_throw f"
  shows "fst (onEnd_inner cfg props d s) =
           Inr (if v = JUndefined then JBool d else JBool (truthy v))"
proof -
  let ?s1 = "emit UserOnEndCalled (s\<lparr>isInsideCallToUserOnEnd := True\<rparr>)"
  have "\<forall>f \<in> set (cancelCallbacks ?s1). no_throw f" using assms(4) by (simp add: emit_def)
  from call_hook_returns [OF assms(3) this, of v]
  obtain s2 where "call_hook (HookReturns v ops) ?s1 = (Inr v, s2)"
    by (cases "call_hook (HookReturns v ops) ?s1") simp
  then show ?thesis
    using assms(1,2) by (simp add: onEnd_inner_def Let_def)
qed

lemma cancelCallbacks_chmod:
  "cancelCallbacks (case chmod_throws ev of
      None \<Rightarrow> emit Chmod s
    | Some msg \<Rightarrow> setErrorExitCode (emit (Log Err (m @ msg)) (emit Chmod s))) = cancelCallbacks s"
  by (simp add: emit_def setErrorExitCode_def split: option.splits)


lemma onEnd_wrapped_result:
  assumes "onEnd cfg = Some h" and "h props = HookReturns v ops"
    and "\<forall>f \<in> set (registered ops). returns_normally f"
    and "\<forall>f \<in> set (cancelCallbacks s). no_throw f"
  shows "fst (onEnd_wrapped cfg ev props d s) =
           Inr (if v = JUndefined then JBool d else JBool (truthy v))"
proof (cases "truthy (outfileMode cfg) \<and> str_truthy (outfile cfg)")
  case False
  then have "onEnd_wrapped cfg ev props d s = onEnd_inner cfg props d s"
    by (auto simp: onEnd_wrapped_def)
  then show ?thesis using onEnd_inner_result [OF assms] by simp
next
  case True
  let ?s2 = "case chmod_throws ev of
               None \<Rightarrow> emit Chmod s
             | Some msg \<Rightarrow> setErrorExitCode
                 (emit (Log Err (''configuration error: outfileMode: '' @ msg)) (emit Chmod s))"
  have e: "onEnd_wrapped cfg ev props d s = onEnd_inner cfg props d ?s2"
    using True by (simp add: onEnd_wrapped_def Let_def split: option.splits)
  have "\<forall>f \<in> set (cancelCallbacks ?s2). no_throw f"
    using assms(4) by (simp only: cancelCallbacks_chmod)
  from onEnd_inner_result [OF assms(1-3) this] e show ?thesis by simp
qed

lemma cancelCallbacks_logWarnings: "cancelCallbacks (logWarnings ws s) = cancelCallbacks s"
  by (simp add: logWarnings_def emit_def)

lemma onBuildFail_result:
  assumes "onEnd cfg = Some h" and "h (onBuildFail_props err b) = HookReturns v ops"
    and "\<forall>f \<in> set (registered ops). returns_normally f"
    and "\<forall>f \<in> set (cancelCallbacks s). no_throw f"
  shows "fst (onBuildFail cfg ev err b s) =
           Inr (if v = JUndefined then JBool False else JBool (truthy v))"
proof -
  let ?s1 = "logWarnings (the (warnings (onBuildFail_props err b))) s"
  have "\<forall>f \<in> set (cancelCallbacks ?s1). no_throw f"
    using assms(4) by (simp only: cancelCallbacks_logWarnings)
  from onEnd_wrapped_result [OF assms(1-3) this]
  show ?thesis by (simp add: onBuildFail_def Let_def)
qed

lemma onBuildSuccess_result:
  assumes "patchSourceMap_throws ev = None"
    and "onEnd cfg = Some h" and "h \<lparr>warnings = ws, errors = []\<rparr> = HookReturns v ops"
    and "\<forall>f \<in> set (registered ops). returns_normally f"
    and "\<forall>f \<in> set (cancelCallbacks s). no_throw f"
  shows "fst (onBuildSuccess cfg ev ws s) =
           Inr (if v = JUndefined then JBool True else JBool (truthy v))"
proof -
  let ?s1 = "logWarnings (case ws of None \<Rightarrow> [] | Some w \<Rightarrow> w) s"
  have c: "\<forall>f \<in> set (cancelCallbacks ?s1). no_throw f"
    using assms(5) by (simp only: cancelCallbacks_logWarnings)
  have r: "fst (onEnd_wrapped cfg ev \<lparr>warnings = ws, errors = []\<rparr> True s') =
             Inr (if v = JUndefined then JBool True else JBool (truthy v))"
    if "cancelCallbacks s' = cancelCallbacks ?s1" for s'
    using onEnd_wrapped_result [OF assms(2-4), of s' ev True] c that by simp
  have "fst (onBuildSuccess cfg ev ws s) =
          fst (onEnd_wrapped cfg ev \<lparr>warnings = ws, errors = []\<rparr> True
                (emit (Log Info (if str_truthy (outdir cfg) then ''Wrote to dir''
                                 else ''Finished (write=false)'')) ?s1)) \<or>
        fst (onBuildSuccess cfg ev ws s) =
          fst (onEnd_wrapped cfg ev \<lparr>warnings = ws, errors = []\<rparr> True
                (emit (Log Info ''Wrote'') (emit PatchSourceMap ?s1))) \<or>
        fst (onBuildSuccess cfg ev ws s) =
          fst (onEnd_wrapped cfg ev \<lparr>warnings = ws, errors = []\<rparr> True
                (emit (Log Info ''Wrote'') ?s1))"
    using assms(1) by (simp add: onBuildSuccess_def Let_def)
  then show ?thesis
    by (elim disjE) (simp_all add: r emit_def)
qed

text \<open>
  Claim C9. Whatever way the cycle went, the value that the user's \<open>onEnd\<close> hook returns
  decides its outcome unless that value is \<open>undefined\<close>: after a successful build a
  defined falsy value (\<open>false\<close>, \<open>0\<close>, \<open>null\<close>, \<open>""\<close>, \<open>NaN\<close>) makes the outcome \<open>false\<close> and a
  truthy one \<open>true\<close>; after a failed build likewise; and \<open>undefined\<close> leaves the default,
  \<open>true\<close> after success and \<open>false\<close> after failure. (The hook's own operations on the
  handle are taken not to throw, and so is the patching of the source map.)
\<close>

theorem C9_onEnd_override:
  assumes "onEnd cfg = Some h"
    and "\<forall>f \<in> set (registered ops). returns_normally f"
    and "\<forall>f \<in> set (cancelCallbacks s). no_throw f"
  shows
    "(esbuild_build ev = BuildResolved ws \<and> patchSourceMap_throws ev = None \<and>
      h \<lparr>warnings = ws, errors = []\<rparr> = HookReturns v ops \<longrightarrow>
        fst (esbuild_settle cfg ev s) =
          Inr (if v = JUndefined then JBool True else JBool (truthy v))) \<and>
     (esbuild_build ev' = BuildRejected err \<and>
      h (onBuildFail_props err False) = HookReturns v' ops \<longrightarrow>
        fst (esbuild_settle cfg ev' s) =
          Inr (if v' = JUndefined then JBool False else JBool (truthy v')))"
  using onBuildSuccess_result [OF _ assms(1) _ assms(2,3), of ev ws v]
    onBuildFail_result [OF assms(1) _ assms(2,3), of err False v' ev']
  by (simp add: esbuild_settle_def)

theorem C9_onEnd_override_witness:
  "onEnd (example_onEnd_config (JNum (Finite 0))) = Some (\<lambda>props. HookReturns (JNum (Finite 0)) []) \<and>
   list_all returns_normally (registered []) \<and>
   list_all no_throw (cancelCallbacks build_init) \<and>
   esbuild_build example_env = BuildResolved (Some []) \<and>
   patchSourceMap_throws example_env = None \<and>
   fst (esbuild_settle (example_onEnd_config (JNum (Finite 0))) example_env build_init) =
     Inr (JBool False) \<and>
   fst (esbuild_settle (example_onEnd_config JUndefined) example_env build_init) =
     Inr (JBool True) \<and>
   fst (esbuild_settle (example_onEnd_config JUndefined) example_failing_env build_init) =
     Inr (JBool False)"
proof -
  have h: "onEnd (example_onEnd_config v) = Some (\<lambda>props. HookReturns v [])" for v
    by (simp add: example_onEnd_config_def)
  have r: "\<forall>f \<in> set (registered []). returns_normally f" by simp
  have c: "\<forall>f \<in> set (cancelCallbacks build_init). no_throw f" by (simp add: build_init_def)
  have e: "esbuild_build example_env = BuildResolved (Some [])"
    "patchSourceMap_throws example_env = None"
    by (simp_all add: example_env_def)
  have f: "esbuild_build example_failing_env = BuildRejected
        \<lparr>err_warnings = None, err_errors = None, err_string = ''Error: boom'', err_stack = None\<rparr>"
    by (simp add: example_failing_env_def)
  have 1: "fst (esbuild_settle (example_onEnd_config (JNum (Finite 0))) example_env build_init) =
     Inr (JBool False)"
    using C9_onEnd_override [OF h r c, of example_env "Some []" "JNum (Finite 0)"] e by simp
  have 2: "fst (esbuild_settle (example_onEnd_config JUndefined) example_env build_init) =
     Inr (JBool True)"
    using C9_onEnd_override [OF h r c, of example_env "Some []" JUndefined] e by simp
  have 3: "fst (esbuild_settle (example_onEnd_config JUndefined) example_failing_env build_init) =
     Inr (JBool False)"
    using C9_onEnd_override [OF h r c, where ev' = example_failing_env and v' = JUndefined] f
    by simp
  show ?thesis using 1 2 3 h e by (simp add: build_init_def)
qed


section \<open>Properties of \<open>_esbuild\<close> and \<open>rebuild\<close>\<close>

lemma esbuild_begin_cases:
  obtains (threw) e s2 where "esbuild_begin m cfg ev files s = (Threw e, s2)" "no_build_step s s2"
  | (undefined) s2 where "esbuild_begin m cfg ev files s = (ReturnedUndefined, s2)"
      "no_build_step s s2" "config_CANCELED m s2"
  | (invoked) s2 where
      "esbuild_begin m cfg ev files s =
         (Invoked, emit EsbuildBuild (emit (Log Debug ''invoking esbuild.build()'') s2))"
      "no_build_step s s2"
  | (threw_back) e s2 where
      "esbuild_begin m cfg ev files s =
         (Threw e, emit EsbuildBuild (emit (Log Debug ''invoking esbuild.build()'') s2))"
      "no_build_step s s2"
proof -
  let ?s1 = "if truthy (watch cfg) \<and> truthy (clear cfg) then emit ScreenClear s else s"
  have a: "no_build_step s ?s1" by (simp add: no_build_step_emit no_build_step_refl)
  obtain r s2 where h: "(case onStart cfg of
                 None \<Rightarrow> (Inr JUndefined, ?s1)
               | Some h \<Rightarrow> call_hook (h files) (emit (OnStartCalled files) ?s1)) = (r, s2)"
    by fastforce
  have b: "no_build_step ?s1 s2"
  proof (cases "onStart cfg")
    case None
    with h show ?thesis by (simp add: no_build_step_refl)
  next
    case (Some f)
    have "no_build_step ?s1 (snd (call_hook (f files) (emit (OnStartCalled files) ?s1)))"
      by (rule no_build_step_trans [OF no_build_step_emit call_hook_step]) simp
    with Some h show ?thesis by simp
  qed
  have s2: "no_build_step s s2" by (rule no_build_step_trans [OF a b])
  let ?s3 = "emit (Log Debug ''invoking esbuild.build()'') s2"
  have s3: "no_build_step s ?s3"
    by (rule no_build_step_trans [OF s2 no_build_step_emit]) simp
  show thesis
  proof (cases r)
    case (Inl e)
    have "esbuild_begin m cfg ev files s = (Threw e, emit (Log Debug ''error in onStart handler'') s2)"
      using h Inl by (simp add: esbuild_begin_def Let_def)
    moreover have "no_build_step s (emit (Log Debug ''error in onStart handler'') s2)"
      by (rule no_build_step_trans [OF s2 no_build_step_emit]) simp
    ultimately show thesis by (rule threw)
  next
    case (Inr v)
    show thesis
    proof (cases "config_CANCELED m s2")
      case True
      have "esbuild_begin m cfg ev files s = (ReturnedUndefined, s2)"
        using h Inr True by (simp add: esbuild_begin_def Let_def)
      then show thesis using s2 True by (rule undefined)
    next
      case False
      show thesis
      proof (cases "process_cwd_throws ev")
        case (Some e)
        have "esbuild_begin m cfg ev files s = (Threw e, ?s3)"
          using h Inr False Some by (simp add: esbuild_begin_def Let_def)
        then show thesis using s3 by (rule threw)
      next
        case None
        note cwd = None
        show thesis
        proof (cases "chdir_throws ev")
          case (Some e)
          have "esbuild_begin m cfg ev files s = (Threw e, ?s3)"
            using h Inr False cwd Some by (simp add: esbuild_begin_def Let_def)
          then show thesis using s3 by (rule threw)
        next
          case None
          note cd = None
          show thesis
          proof (cases "chdir_back_throws ev")
            case None
            have "esbuild_begin m cfg ev files s = (Invoked, emit EsbuildBuild ?s3)"
              using h Inr False cwd cd None by (simp add: esbuild_begin_def Let_def)
            then show thesis using s2 by (rule invoked)
          next
            case (Some e)
            have "esbuild_begin m cfg ev files s = (Threw e, emit EsbuildBuild ?s3)"
              using h Inr False cwd cd Some by (simp add: esbuild_begin_def Let_def)
            then show thesis using s2 by (rule threw_back)
          qed
        qed
      qed
    qed
  qed
qed

lemma esbuild_begin_count:
  "count_list (trace s) EsbuildBuild \<le> count_list (trace (snd (esbuild_begin m cfg ev files s))) EsbuildBuild"
  "count_list (trace (snd (esbuild_begin m cfg ev files s))) EsbuildBuild \<le>
     Suc (count_list (trace s) EsbuildBuild)"
  "fst (esbuild_begin m cfg ev files s) = Invoked \<Longrightarrow>
     count_list (trace (snd (esbuild_begin m cfg ev files s))) EsbuildBuild =
       Suc (count_list (trace s) EsbuildBuild)"
  by (cases rule: esbuild_begin_cases [of m cfg ev files s]; simp add: no_build_step_count emit_def)+


lemma esbuild_begin_never_undefined:
  "fst (esbuild_begin False cfg ev files s) \<noteq> ReturnedUndefined"
  by (cases rule: esbuild_begin_cases [of False cfg ev files s])
     (simp_all add: config_CANCELED_def)

lemma esbuild_begin_no_onStart:
  "onStart cfg = None \<Longrightarrow> chdir_ok ev \<Longrightarrow> \<not> config_CANCELED m s \<Longrightarrow>
   fst (esbuild_begin m cfg ev files s) = Invoked"
  by (simp add: esbuild_begin_def chdir_ok_def config_CANCELED_def Let_def emit_def)

lemma esbuild_begin_onStart_returns:
  assumes "onStart cfg = Some h" and "h files = HookReturns v ops"
    and "\<forall>f \<in> set (registered ops). returns_normally f"
    and "\<forall>f \<in> set (cancelCallbacks s). no_throw f"
    and "chdir_ok ev"
  shows "fst (esbuild_begin False cfg ev files s) = Invoked"
proof -
  let ?s = "emit (OnStartCalled files)
              (if truthy (watch cfg) \<and> truthy (clear cfg) then emit ScreenClear s else s)"
  have "\<forall>f \<in> set (cancelCallbacks ?s). no_throw f" using assms(4) by (simp add: emit_def)
  from call_hook_returns [OF assms(3) this, of v]
  obtain s2 where "call_hook (HookReturns v ops) ?s = (Inr v, s2)"
    by (cases "call_hook (HookReturns v ops) ?s") simp
  then show ?thesis
    using assms(1,2,5)
    by (simp add: esbuild_begin_def chdir_ok_def config_CANCELED_def Let_def)
qed

lemma esbuild_begin_prefix:
  "\<exists>es. trace (snd (esbuild_begin m cfg ev files s)) =
     trace s @ (if truthy (watch cfg) \<and> truthy (clear cfg) then [ScreenClear] else []) @
     (if onStart cfg \<noteq> None then [OnStartCalled files] else []) @ es"
proof -
  let ?s1 = "if truthy (watch cfg) \<and> truthy (clear cfg) then emit ScreenClear s else s"
  have t1: "trace ?s1 = trace s @ (if truthy (watch cfg) \<and> truthy (clear cfg) then [ScreenClear] else [])"
    by (simp add: emit_def)
  show ?thesis
  proof (cases "onStart cfg")
    case None
    then show ?thesis
      by (simp add: esbuild_begin_def Let_def emit_def split: option.splits)
  next
    case (Some f)
    let ?s = "emit (OnStartCalled files) ?s1"
    obtain r s2 where c: "call_hook (f files) ?s = (r, s2)" by fastforce
    obtain es where es: "trace s2 = trace ?s @ es"
      using call_hook_step [of ?s "f files"] c by (auto simp: no_build_step_def)
    have "\<exists>es'. trace (snd (esbuild_begin m cfg ev files s)) = trace s2 @ es'"
      using Some c
      by (cases r) (simp_all add: esbuild_begin_def Let_def emit_def split: option.splits)
    then obtain es' where "trace (snd (esbuild_begin m cfg ev files s)) = trace s2 @ es'" ..
    then have "trace (snd (esbuild_begin m cfg ev files s)) =
        trace s @ (if truthy (watch cfg) \<and> truthy (clear cfg) then [ScreenClear] else []) @
        (if onStart cfg \<noteq> None then [OnStartCalled files] else []) @ (es @ es')"
      using es Some by (simp add: emit_def)
    then show ?thesis by blast
  qed
qed

lemma esbuild_cycle_count:
  "count_list (trace (snd (esbuild_cycle m cfg ev files s))) EsbuildBuild =
     count_list (trace (snd (esbuild_begin m cfg ev files s))) EsbuildBuild"
proof -
  obtain b s' where b: "esbuild_begin m cfg ev files s = (b, s')" by fastforce
  show ?thesis
    using b no_build_step_count [OF esbuild_settle_step, of cfg ev s']
    by (cases b) (simp_all add: esbuild_cycle_def)
qed

lemma esbuild_cycle_invoked:
  "fst (esbuild_begin m cfg ev files s) = Invoked \<Longrightarrow>
   esbuild_cycle m cfg ev files s = esbuild_settle cfg ev (snd (esbuild_begin m cfg ev files s))"
  by (cases "esbuild_begin m cfg ev files s") (simp add: esbuild_cycle_def)









lemma example_watch_build1_begin:
  "build1_begin False (TOString ''off'') JUndefined None example_watch_config
     (example_build1_env example_env True) build_init =
     ((Some Invoked, None, False),
      build_init\<lparr>ctx_rebuild := RebuildBuild1,
                 trace := [ScreenClear, OnStartCalled [], Log Debug ''invoking esbuild.build()'',
                           EsbuildBuild]\<rparr>)"
  by (simp add: build1_begin_def esbuild_begin_def call_hook_def config_CANCELED_def
      example_build1_env_def example_env_def example_watch_config_def example_config_def
      build_init_def emit_def Let_def)



lemma example_watch_cancel:
  "cancel JUndefined
     (build_init\<lparr>ctx_rebuild := RebuildBuild1,
                 trace := [ScreenClear, OnStartCalled [], Log Debug ''invoking esbuild.build()'',
                           EsbuildBuild]\<rparr>) =
   (None,
    build_init\<lparr>CANCELED := True, ctx_rebuild := RebuildBuild1,
               trace := [ScreenClear, OnStartCalled [], Log Debug ''invoking esbuild.build()'',
                         EsbuildBuild, Log Debug ''build cancelled'']\<rparr>)"
  by (simp add: cancel_def build_init_def emit_def Let_def resolver_resolve_def)

lemma example_watch_rebuild_cancelled:
  "rebuild False example_watch_config example_env
     (build_init\<lparr>CANCELED := True, ctx_rebuild := RebuildBuild1,
                 trace := [ScreenClear, OnStartCalled [], Log Debug ''invoking esbuild.build()'',
                           EsbuildBuild, Log Debug ''build cancelled'']\<rparr>) =
   (Inr (JBool True),
    build_init\<lparr>CANCELED := True, ctx_rebuild := RebuildBuild1,
               trace := [ScreenClear, OnStartCalled [], Log Debug ''invoking esbuild.build()'',
                         EsbuildBuild, Log Debug ''build cancelled'',
                         ScreenClear, OnStartCalled [], Log Debug ''invoking esbuild.build()'',
                         EsbuildBuild, Log Info ''Wrote'']\<rparr>)"
  by (simp add: rebuild_def esbuild_cycle_def esbuild_begin_def esbuild_settle_def call_hook_def
      config_CANCELED_def onBuildSuccess_def onEnd_wrapped_def onEnd_inner_def logWarnings_def
      logErrors_def example_watch_config_def example_config_def example_env_def build_init_def
      emit_def Let_def)

text \<open>
  Claim C6. The claim does not hold of the code. A build cancelled before its deferred
  start does not begin: \<open>build\<close> tests the flag on its own object, \<open>build1\<close> is not called and
  nothing happens but a debug message. But in a cycle of a build that was started by a
  call of \<open>build\<close>, the test \<open>if (config[CANCELED]) return\<close> of \<open>_esbuild\<close> reads the copy of the
  configuration that \<open>build1\<close> made, which has no such property, so it never returns there:
  on a cancelled handle the cycle clears the screen (when \<open>watch\<close> and \<open>clear\<close> are set),
  calls \<open>onStart\<close> (when there is one) and, when \<open>onStart\<close> is absent or returns and the
  change of directory succeeds, invokes the bundler and goes on to the handlers of its
  result.
\<close>

theorem C6_cancelled_cycle_invokes_bundler:
  "(CANCELED s \<longrightarrow>
      build_start m delimiter opt diag tsconfigFile cfg bev s =
        emit (Log Debug ''build cancelled immediately'') s) \<and>
   fst (esbuild_begin False cfg ev files s) \<noteq> ReturnedUndefined \<and>
   (CANCELED s \<and> chdir_ok ev \<and> onStart cfg = None \<longrightarrow>
      fst (esbuild_begin False cfg ev files s) = Invoked \<and>
      count_list (trace (snd (esbuild_cycle False cfg ev files s))) EsbuildBuild =
        Suc (count_list (trace s) EsbuildBuild) \<and>
      esbuild_cycle False cfg ev files s =
        esbuild_settle cfg ev (snd (esbuild_begin False cfg ev files s))) \<and>
   (CANCELED s \<and> chdir_ok ev \<and> onStart cfg = Some h \<and> h files = HookReturns v ops \<and>
    (\<forall>f \<in> set (registered ops). returns_normally f) \<and>
    (\<forall>f \<in> set (cancelCallbacks s). no_throw f) \<longrightarrow>
      fst (esbuild_begin False cfg ev files s) = Invoked \<and>
      count_list (trace (snd (esbuild_cycle False cfg ev files s))) EsbuildBuild =
        Suc (count_list (trace s) EsbuildBuild) \<and>
      esbuild_cycle False cfg ev files s =
        esbuild_settle cfg ev (snd (esbuild_begin False cfg ev files s))) \<and>
   (\<exists>es. trace (snd (esbuild_begin False cfg ev files s)) =
      trace s @ (if truthy (watch cfg) \<and> truthy (clear cfg) then [ScreenClear] else []) @
      (if onStart cfg \<noteq> None then [OnStartCalled files] else []) @ es)"
proof -
  have a: "CANCELED s \<longrightarrow>
      build_start m delimiter opt diag tsconfigFile cfg bev s =
        emit (Log Debug ''build cancelled immediately'') s"
    by (simp add: build_start_def)
  have i: "fst (esbuild_begin False cfg ev files s) = Invoked \<and>
      count_list (trace (snd (esbuild_cycle False cfg ev files s))) EsbuildBuild =
        Suc (count_list (trace s) EsbuildBuild) \<and>
      esbuild_cycle False cfg ev files s =
        esbuild_settle cfg ev (snd (esbuild_begin False cfg ev files s))"
    if "fst (esbuild_begin False cfg ev files s) = Invoked"
    using that esbuild_begin_count(3) [OF that] esbuild_cycle_invoked [OF that]
      esbuild_cycle_count [of False cfg ev files s]
    by simp
  have e: "fst (esbuild_begin False cfg ev files s) = Invoked"
    if "chdir_ok ev" "onStart cfg = None"
    using that by (intro esbuild_begin_no_onStart) (simp_all add: config_CANCELED_def)
  have f: "fst (esbuild_begin False cfg ev files s) = Invoked"
    if "chdir_ok ev" "onStart cfg = Some h" "h files = HookReturns v ops"
      "\<forall>f \<in> set (registered ops). returns_normally f"
      "\<forall>f \<in> set (cancelCallbacks s). no_throw f"
    using esbuild_begin_onStart_returns [OF that(2-5) that(1)] .
  show ?thesis
    using a i e f esbuild_begin_never_undefined [of cfg ev files s]
      esbuild_begin_prefix [of False cfg ev files s]
    by blast
qed

theorem C6_cancelled_cycle_invokes_bundler_witness:
  "CANCELED (snd (cancel JUndefined
      (snd (build1_begin False (TOString ''off'') JUndefined None example_watch_config
              (example_build1_env example_env True) build_init)))) \<and>
   chdir_ok example_env \<and>
   onStart example_watch_config = Some (\<lambda>changedFiles. HookReturns JUndefined []) \<and>
   list_all returns_normally (registered []) \<and>
   list_all no_throw (cancelCallbacks (snd (cancel JUndefined
      (snd (build1_begin False (TOString ''off'') JUndefined None example_watch_config
              (example_build1_env example_env True) build_init))))) \<and>
   fst (esbuild_begin False example_watch_config example_env []
      (snd (cancel JUndefined
         (snd (build1_begin False (TOString ''off'') JUndefined None example_watch_config
                 (example_build1_env example_env True) build_init))))) = Invoked \<and>
   rebuild False example_watch_config example_env
      (snd (cancel JUndefined
         (snd (build1_begin False (TOString ''off'') JUndefined None example_watch_config
                 (example_build1_env example_env True) build_init)))) =
     (Inr (JBool True),
      build_init\<lparr>CANCELED := True, ctx_rebuild := RebuildBuild1,
                 trace := [ScreenClear, OnStartCalled [], Log Debug ''invoking esbuild.build()'',
                           EsbuildBuild, Log Debug ''build cancelled'',
                           ScreenClear, OnStartCalled [], Log Debug ''invoking esbuild.build()'',
                           EsbuildBuild, Log Info ''Wrote'']\<rparr>) \<and>
   build_start False '':'' (TOString ''off'') JUndefined None example_watch_config
       (example_build1_env example_env True) (snd (cancel JUndefined build_init)) =
     emit (Log Debug ''build cancelled immediately'') (snd (cancel JUndefined build_init))"
proof -
  let ?s = "snd (cancel JUndefined
      (snd (build1_begin False (TOString ''off'') JUndefined None example_watch_config
              (example_build1_env example_env True) build_init)))"
  have s: "?s = build_init\<lparr>CANCELED := True, ctx_rebuild := RebuildBuild1,
               trace := [ScreenClear, OnStartCalled [], Log Debug ''invoking esbuild.build()'',
                         EsbuildBuild, Log Debug ''build cancelled'']\<rparr>"
    by (simp add: example_watch_build1_begin example_watch_cancel)
  have c: "CANCELED ?s" "list_all no_throw (cancelCallbacks ?s)"
    by (simp_all add: s) (simp add: build_init_def)
  have k: "chdir_ok example_env" by (simp add: chdir_ok_def example_env_def)
  have o: "onStart example_watch_config = Some (\<lambda>changedFiles. HookReturns JUndefined [])"
    by (simp add: example_watch_config_def)
  have 1: "fst (esbuild_begin False example_watch_config example_env [] ?s) = Invoked"
    using C6_cancelled_cycle_invokes_bundler [where s = ?s and cfg = example_watch_config
        and ev = example_env and files = "[]"
        and h = "\<lambda>changedFiles. HookReturns JUndefined []" and v = JUndefined and ops = "[]"]
      c(1) c(2) [unfolded list_all_iff] k o
    by simp
  have 2: "rebuild False example_watch_config example_env ?s =
     (Inr (JBool True),
      build_init\<lparr>CANCELED := True, ctx_rebuild := RebuildBuild1,
                 trace := [ScreenClear, OnStartCalled [], Log Debug ''invoking esbuild.build()'',
                           EsbuildBuild, Log Debug ''build cancelled'',
                           ScreenClear, OnStartCalled [], Log Debug ''invoking esbuild.build()'',
                           EsbuildBuild, Log Info ''Wrote'']\<rparr>)"
    by (simp only: s example_watch_rebuild_cancelled)
  have d: "CANCELED (snd (cancel JUndefined build_init))" by (rule cancel_sets_CANCELED)
  have 3: "build_start False '':'' (TOString ''off'') JUndefined None example_watch_config
       (example_build1_env example_env True) (snd (cancel JUndefined build_init)) =
     emit (Log Debug ''build cancelled immediately'') (snd (cancel JUndefined build_init))"
    using C6_cancelled_cycle_invokes_bundler [where s = "snd (cancel JUndefined build_init)"
        and m = False and delimiter = "'':''" and opt = "TOString ''off''" and diag = JUndefined
        and tsconfigFile = None and cfg = example_watch_config
        and bev = "example_build1_env example_env True"] d
    by blast
  show ?thesis
    using c k o 1 2 3 by simp
qed

section \<open>The promise of a build whose initial cycle fails\<close>
















end
